theory Spec2Isabelle
  imports
    Complex_Main
    "HOL-Library.AList"
    "HOL-Library.Char_ord"
    "HOL-Library.List_Lexorder"
    "HOL-Library.Log_Nat"
begin

section \<open>Errors\<close>

text \<open>
  Every exception the pipeline can meet is a value. \<open>etl\<close> catches all of them
  (\<^verbatim>\<open>except Exception\<close>); \<open>_is_float\<close> catches \<open>ValueError\<close> only.
\<close>

datatype error =
    ValueError
  | TypeError
  | KeyError
  | AttributeError
  | OverflowError
  | OutOfBoundsDatetime
  | FileNotFoundError
  | DatabaseError

text \<open>Sequencing of fallible steps: the first error raised is the result.\<close>

definition bindE :: "error + 'a \<Rightarrow> ('a \<Rightarrow> error + 'b) \<Rightarrow> error + 'b" where
  "bindE m f = (case m of Inl e \<Rightarrow> Inl e | Inr x \<Rightarrow> f x)"

text \<open>A fallible function applied to every element of a column, in order.\<close>

fun mapE :: "('a \<Rightarrow> error + 'b) \<Rightarrow> 'a list \<Rightarrow> error + 'b list" where
  "mapE f [] = Inr []"
| "mapE f (x # xs) =
     (case f x of
        Inl e \<Rightarrow> Inl e
      | Inr y \<Rightarrow> (case mapE f xs of Inl e \<Rightarrow> Inl e | Inr ys \<Rightarrow> Inr (y # ys)))"

section \<open>Python strings\<close>

text \<open>
  A string is a list of characters, one per code point; the characters of the model are
  the code points below 256. \<open>is_space\<close> is \<^verbatim>\<open>str.isspace\<close> on them, which is also what
  \<^verbatim>\<open>str.strip\<close> removes and what \<^verbatim>\<open>\s\<close> matches in a regular expression: tab, line
  feed, vertical tab, form feed, carriage return, the four separators 0x1C to 0x1F, the
  space, the next-line character 0x85 and the no-break space 0xA0.
\<close>

definition ws_chars :: string where
  "ws_chars = [CHR 0x09, CHR 0x0A, CHR 0x0B, CHR 0x0C, CHR 0x0D,
               CHR 0x1C, CHR 0x1D, CHR 0x1E, CHR 0x1F, CHR 0x20, CHR 0x85, CHR 0xA0]"

definition is_space :: "char \<Rightarrow> bool" where
  "is_space c = (c \<in> set ws_chars)"

definition is_digit :: "char \<Rightarrow> bool" where
  "is_digit c = (c \<in> set ''0123456789'')"

definition digit_val :: "char \<Rightarrow> nat" where
  "digit_val c = of_char c - 48"

text \<open>\<^verbatim>\<open>s.strip()\<close>: whitespace removed at both ends.\<close>

definition strip :: "string \<Rightarrow> string" where
  "strip s = rev (dropWhile is_space (rev (dropWhile is_space s)))"

text \<open>
  \<^verbatim>\<open>s.replace(old, new)\<close>: every occurrence of \<open>old\<close>, found from the left and not
  overlapping, becomes \<open>new\<close>. With an empty \<open>old\<close> Python puts \<open>new\<close> before every
  character and at the end.
\<close>

function str_replace :: "string \<Rightarrow> string \<Rightarrow> string \<Rightarrow> string" where
  "str_replace old new s =
     (if old = [] then new @ concat (map (\<lambda>c. c # new) s)
      else if s = [] then []
      else if take (length old) s = old then new @ str_replace old new (drop (length old) s)
      else hd s # str_replace old new (tl s))"
  by pat_completeness auto
termination
  by (relation "measure (\<lambda>(old, new, s). length s)") auto

declare str_replace.simps [simp del]

text \<open>\<^verbatim>\<open>pat in s\<close>: \<open>pat\<close> occurs in \<open>s\<close> as a contiguous substring.\<close>

fun str_contains :: "string \<Rightarrow> string \<Rightarrow> bool" where
  "str_contains pat [] = (pat = [])"
| "str_contains pat (c # cs) = (take (length pat) (c # cs) = pat \<or> str_contains pat cs)"

text \<open>\<^verbatim>\<open>int(s)\<close> on a string of ASCII digits.\<close>

definition digits_val :: "string \<Rightarrow> nat" where
  "digits_val s = foldl (\<lambda>n c. 10 * n + digit_val c) 0 s"

section \<open>The regular expressions of strptime\<close>

text \<open>
  pandas parses a string under a format by the regular expression that its copy of
  CPython's \<^verbatim>\<open>_strptime.TimeRE\<close> builds from the format, matched at the start of the
  string by a backtracking matcher. \<open>rx_run r s\<close> lists what is left of \<open>s\<close> after each
  way of matching \<open>r\<close> at its start, in the order the matcher tries them: the head of the
  list is the match that \<^verbatim>\<open>re.match\<close> returns.
\<close>

datatype rx =
    Cls string       \<comment> \<open>one character of the class\<close>
  | PlusCls string   \<comment> \<open>one or more characters of the class, greedy\<close>
  | Seq rx rx
  | Alt rx rx

fun rx_run :: "rx \<Rightarrow> string \<Rightarrow> string list" where
  "rx_run (Cls cs) [] = []"
| "rx_run (Cls cs) (c # s) = (if c \<in> set cs then [s] else [])"
| "rx_run (PlusCls cs) [] = []"
| "rx_run (PlusCls cs) (c # s) = (if c \<in> set cs then rx_run (PlusCls cs) s @ [s] else [])"
| "rx_run (Seq a b) s = concat (map (rx_run b) (rx_run a s))"
| "rx_run (Alt a b) s = rx_run a s @ rx_run b s"

text \<open>A named group: the text it matched, with what is left.\<close>

definition grp :: "rx \<Rightarrow> string \<Rightarrow> (string \<times> string) list" where
  "grp r s = map (\<lambda>rest. (take (length s - length rest) s, rest)) (rx_run r s)"

definition rx_d :: rx where "rx_d = Cls ''0123456789''"

text \<open>
  The directives, as \<^verbatim>\<open>TimeRE\<close> defines them:
  \<^verbatim>\<open>%m = 1[0-2]|0[1-9]|[1-9]\<close>, \<^verbatim>\<open>%d = 3[0-1]|[1-2]\d|0[1-9]|[1-9]| [1-9]\<close>,
  \<^verbatim>\<open>%Y = \d\d\d\d\<close>, \<^verbatim>\<open>%H = 2[0-3]|[0-1]\d|\d\<close>, \<^verbatim>\<open>%M = [0-5]\d|\d\<close>;
  a space in the format is \<^verbatim>\<open>\s+\<close>.
\<close>

definition re_m :: rx where
  "re_m = Alt (Seq (Cls ''1'') (Cls ''012''))
         (Alt (Seq (Cls ''0'') (Cls ''123456789'')) (Cls ''123456789''))"

definition re_d :: rx where
  "re_d = Alt (Seq (Cls ''3'') (Cls ''01''))
         (Alt (Seq (Cls ''12'') rx_d)
         (Alt (Seq (Cls ''0'') (Cls ''123456789''))
         (Alt (Cls ''123456789'') (Seq (Cls '' '') (Cls ''123456789'')))))"

definition re_Y :: rx where
  "re_Y = Seq rx_d (Seq rx_d (Seq rx_d rx_d))"

definition re_H :: rx where
  "re_H = Alt (Seq (Cls ''2'') (Cls ''0123'')) (Alt (Seq (Cls ''01'') rx_d) rx_d)"

definition re_M :: rx where
  "re_M = Alt (Seq (Cls ''012345'') rx_d) rx_d"

definition re_ws :: rx where
  "re_ws = PlusCls ws_chars"

text \<open>
  The two formats of the program. Each result is the groups of one way of matching and
  the text left unconverted after it.
\<close>

definition match_date :: "string \<Rightarrow> ((string \<times> string \<times> string) \<times> string) list" where
  "match_date s =
     [((m, d, y), r5).
        (m, r1) \<leftarrow> grp re_m s, r2 \<leftarrow> rx_run (Cls ''/'') r1,
        (d, r3) \<leftarrow> grp re_d r2, r4 \<leftarrow> rx_run (Cls ''/'') r3,
        (y, r5) \<leftarrow> grp re_Y r4]"

definition match_datetime ::
  "string \<Rightarrow> (((string \<times> string \<times> string) \<times> string \<times> string) \<times> string) list" where
  "match_datetime s =
     [((mdy, h, mi), r4).
        (mdy, r0) \<leftarrow> match_date s, r1 \<leftarrow> rx_run re_ws r0,
        (h, r2) \<leftarrow> grp re_H r1, r3 \<leftarrow> rx_run (Cls '':'') r2,
        (mi, r4) \<leftarrow> grp re_M r3]"

section \<open>Timestamps\<close>

text \<open>
  The proleptic Gregorian calendar of Python's \<^verbatim>\<open>datetime\<close>: day 1 is 0001-01-01, and
  1970-01-01 is day 719163.
\<close>

definition is_leap :: "nat \<Rightarrow> bool" where
  "is_leap y = (y mod 4 = 0 \<and> (y mod 100 \<noteq> 0 \<or> y mod 400 = 0))"

definition days_in_month :: "nat \<Rightarrow> nat \<Rightarrow> nat" where
  "days_in_month y m =
     (if m = 2 then (if is_leap y then 29 else 28)
      else if m \<in> set [4, 6, 9, 11] then 30 else 31)"

definition days_before_year :: "nat \<Rightarrow> nat" where
  "days_before_year y = (let z = y - 1 in z * 365 + z div 4 - z div 100 + z div 400)"

text \<open>The days of a year before month \<open>m\<close>, for \<open>m\<close> from 1 to 12.\<close>

definition days_before_month :: "nat \<Rightarrow> nat \<Rightarrow> nat" where
  "days_before_month y m =
     [0, 31, 59, 90, 120, 151, 181, 212, 243, 273, 304, 334] ! (m - 1)
     + (if 2 < m \<and> is_leap y then 1 else 0)"

definition ymd2ord :: "nat \<Rightarrow> nat \<Rightarrow> nat \<Rightarrow> nat" where
  "ymd2ord y m d = days_before_year y + days_before_month y m + d"

text \<open>
  A pandas timestamp (\<^verbatim>\<open>datetime64[ns]\<close>) is a signed 64-bit count of nanoseconds
  since 1970-01-01 00:00; the least 64-bit value is reserved for NaT. A value outside
  the range cannot be stored: pandas raises \<^verbatim>\<open>OutOfBoundsDatetime\<close>.
\<close>

definition ns_per_minute :: int where "ns_per_minute = 60 * 1000000000"

definition ns_per_day :: int where "ns_per_day = 1440 * ns_per_minute"

definition civil_ns :: "nat \<Rightarrow> nat \<Rightarrow> nat \<Rightarrow> nat \<Rightarrow> nat \<Rightarrow> int" where
  "civil_ns y m d h mi =
     (int (ymd2ord y m d) - 719163) * ns_per_day + (int h * 60 + int mi) * ns_per_minute"

definition in_ns_range :: "int \<Rightarrow> bool" where
  "in_ns_range v = (- (2 ^ 63) < v \<and> v < 2 ^ 63)"

text \<open>
  The fields of a match become a timestamp: the date must exist
  (\<^verbatim>\<open>ValueError\<close> otherwise: year 0, no such month, or a day the month does not
  have) and fit the nanosecond range.
\<close>

definition make_ts :: "nat \<Rightarrow> nat \<Rightarrow> nat \<Rightarrow> nat \<Rightarrow> nat \<Rightarrow> error + int" where
  "make_ts y m d h mi =
     (if y < 1 \<or> m < 1 \<or> 12 < m \<or> d < 1 \<or> days_in_month y m < d then Inl ValueError
      else if \<not> in_ns_range (civil_ns y m d h mi) then Inl OutOfBoundsDatetime
      else Inr (civil_ns y m d h mi))"

text \<open>
  \<^verbatim>\<open>int()\<close> of a group: the day group may start with a space, which \<^verbatim>\<open>int\<close> skips.
\<close>

definition group_val :: "string \<Rightarrow> nat" where
  "group_val g = digits_val (dropWhile is_space g)"

datatype fmt = DateTimeFmt | DateFmt

text \<open>
  One string under one format, as pandas' \<^verbatim>\<open>array_strptime\<close> does it with
  \<^verbatim>\<open>exact=True\<close> and \<^verbatim>\<open>errors='raise'\<close>: the empty string and the strings naming
  a missing value give NaT (\<open>None\<close>); otherwise the regular expression must match at the
  start (\<^verbatim>\<open>ValueError\<close>: the data does not match the format) and the match must end
  where the string ends (\<^verbatim>\<open>ValueError\<close>: unconverted data remains). pandas from
  version 2 on also reads the strings \<^verbatim>\<open>now\<close> and \<^verbatim>\<open>today\<close> as the clock time
  of the run; the model has no clock and reads them as any other string, as pandas 1
  does.
\<close>

definition nat_strings :: "string list" where
  "nat_strings = [''NaT'', ''nat'', ''NAT'', ''nan'', ''NaN'', ''NAN'']"

definition strptime :: "fmt \<Rightarrow> string \<Rightarrow> error + int option" where
  "strptime f s =
     (if s = [] \<or> s \<in> set nat_strings then Inr None
      else case f of
        DateTimeFmt \<Rightarrow>
          (case match_datetime s of
             [] \<Rightarrow> Inl ValueError
           | (((m, d, y), h, mi), rest) # _ \<Rightarrow>
               if rest \<noteq> [] then Inl ValueError
               else map_sum id Some
                 (make_ts (group_val y) (group_val m) (group_val d) (group_val h) (group_val mi)))
      | DateFmt \<Rightarrow>
          (case match_date s of
             [] \<Rightarrow> Inl ValueError
           | ((m, d, y), rest) # _ \<Rightarrow>
               if rest \<noteq> [] then Inl ValueError
               else map_sum id Some
                 (make_ts (group_val y) (group_val m) (group_val d) 0 0)))"

section \<open>Floating-point numbers\<close>

text \<open>
  A Python float is an IEEE 754 binary64 number: a finite value (a real number), an
  infinity or NaN. The sign of zero is not modelled.
\<close>

datatype pyfloat = Fin real | PosInf | NegInf | NaN

definition pow2 :: "int \<Rightarrow> real" where
  "pow2 e = (if 0 \<le> e then 2 ^ nat e else 1 / 2 ^ nat (- e))"

text \<open>\<open>ilog2 x\<close> is the integer part of the binary logarithm of a positive \<open>x\<close>.\<close>

definition ilog2 :: "real \<Rightarrow> int" where
  "ilog2 x =
     (if 1 \<le> x then int (floorlog 2 (nat \<lfloor>x\<rfloor>)) - 1
      else - int (floorlog 2 (nat (\<lceil>1 / x\<rceil> - 1))))"

definition round_half_even :: "real \<Rightarrow> int" where
  "round_half_even x =
     (let f = \<lfloor>x\<rfloor>; r = x - of_int f
      in if r < 1 / 2 then f
         else if 1 / 2 < r then f + 1
         else if even f then f else f + 1)"

text \<open>
  Rounding of an exact value to the nearest binary64 number, ties to even: 53
  significant bits, the least exponent that of the subnormal numbers, and overflow to
  an infinity.
\<close>

definition to_double :: "real \<Rightarrow> pyfloat" where
  "to_double x =
     (if x = 0 then Fin 0
      else
        let e = max (ilog2 \<bar>x\<bar> - 52) (- 1074);
            y = of_int (round_half_even (\<bar>x\<bar> / pow2 e)) * pow2 e
        in if 2 ^ 1024 \<le> y then (if 0 < x then PosInf else NegInf)
           else Fin (if 0 < x then y else - y))"

text \<open>\<^verbatim>\<open>x * y\<close> on floats: the exact product, rounded.\<close>

fun fmul :: "pyfloat \<Rightarrow> pyfloat \<Rightarrow> pyfloat" where
  "fmul (Fin a) (Fin b) = to_double (a * b)"
| "fmul NaN _ = NaN"
| "fmul _ NaN = NaN"
| "fmul (Fin a) PosInf = (if a = 0 then NaN else if 0 < a then PosInf else NegInf)"
| "fmul (Fin a) NegInf = (if a = 0 then NaN else if 0 < a then NegInf else PosInf)"
| "fmul PosInf (Fin b) = (if b = 0 then NaN else if 0 < b then PosInf else NegInf)"
| "fmul NegInf (Fin b) = (if b = 0 then NaN else if 0 < b then NegInf else PosInf)"
| "fmul PosInf PosInf = PosInf"
| "fmul PosInf NegInf = NegInf"
| "fmul NegInf PosInf = NegInf"
| "fmul NegInf NegInf = PosInf"

text \<open>
  \<^verbatim>\<open>math.ceil(x)\<close>: an integer for a finite \<open>x\<close>, \<^verbatim>\<open>ValueError\<close> for NaN,
  \<^verbatim>\<open>OverflowError\<close> for an infinity.
\<close>

fun math_ceil :: "pyfloat \<Rightarrow> error + int" where
  "math_ceil (Fin q) = Inr \<lceil>q\<rceil>"
| "math_ceil NaN = Inl ValueError"
| "math_ceil PosInf = Inl OverflowError"
| "math_ceil NegInf = Inl OverflowError"

subsection \<open>float() of a string\<close>

text \<open>
  The grammar of \<^verbatim>\<open>float(s)\<close>: whitespace around the text is skipped, which here is
  tab, line feed, vertical tab, form feed, carriage return, the space, 0x85 and 0xA0 (not
  the separators 0x1C to 0x1F, which \<^verbatim>\<open>str.strip\<close> removes); then an optional
  sign and either \<^verbatim>\<open>inf\<close>, \<^verbatim>\<open>infinity\<close> or \<^verbatim>\<open>nan\<close> in any case, or a decimal
  number: digits with at most one point and at least one digit, then an optional
  exponent (\<^verbatim>\<open>e\<close> or \<^verbatim>\<open>E\<close>, an optional sign, at least one digit). A single
  underscore may stand between two digits. Anything else is a \<^verbatim>\<open>ValueError\<close>.
\<close>

definition float_ws :: string where
  "float_ws = [CHR 0x09, CHR 0x0A, CHR 0x0B, CHR 0x0C, CHR 0x0D, CHR 0x20, CHR 0x85, CHR 0xA0]"

definition float_strip :: "string \<Rightarrow> string" where
  "float_strip s =
     rev (dropWhile (\<lambda>c. c \<in> set float_ws) (rev (dropWhile (\<lambda>c. c \<in> set float_ws) s)))"

definition to_lower :: "char \<Rightarrow> char" where
  "to_lower c =
     (case map_of (zip ''ABCDEFGHIJKLMNOPQRSTUVWXYZ'' ''abcdefghijklmnopqrstuvwxyz'') c of
        Some l \<Rightarrow> l
      | None \<Rightarrow> c)"

text \<open>
  Underscores: each must have a digit before it and a digit after it; they are then
  removed. \<open>prev\<close> is the character before the one looked at.
\<close>

fun strip_underscores :: "char \<Rightarrow> string \<Rightarrow> string option" where
  "strip_underscores prev [] = (if prev = CHR ''_'' then None else Some [])"
| "strip_underscores prev (c # cs) =
     (if c = CHR ''_'' then
        (if is_digit prev then strip_underscores c cs else None)
      else if prev = CHR ''_'' \<and> \<not> is_digit c then None
      else map_option ((#) c) (strip_underscores c cs))"

definition pow10 :: "int \<Rightarrow> real" where
  "pow10 e = (if 0 \<le> e then 10 ^ nat e else 1 / 10 ^ nat (- e))"

definition parse_exponent :: "string \<Rightarrow> int option" where
  "parse_exponent s =
     (case s of
        [] \<Rightarrow> Some 0
      | c # t \<Rightarrow>
          if c \<noteq> CHR ''e'' \<and> c \<noteq> CHR ''E'' then None
          else
            let neg = (t \<noteq> [] \<and> hd t = CHR ''-'');
                ds = (if t \<noteq> [] \<and> hd t \<in> set ''+-'' then tl t else t)
            in if ds = [] \<or> \<not> list_all is_digit ds then None
               else Some (if neg then - int (digits_val ds) else int (digits_val ds)))"

definition parse_decimal :: "string \<Rightarrow> real option" where
  "parse_decimal s =
     (let ip = takeWhile is_digit s;
          r1 = dropWhile is_digit s;
          pt = (r1 \<noteq> [] \<and> hd r1 = CHR ''.'');
          fp = (if pt then takeWhile is_digit (tl r1) else []);
          r2 = (if pt then dropWhile is_digit (tl r1) else r1)
      in if ip = [] \<and> fp = [] then None
         else map_option
           (\<lambda>ex. of_nat (digits_val (ip @ fp)) * pow10 (ex - int (length fp)))
           (parse_exponent r2))"

definition float_of_string :: "string \<Rightarrow> error + pyfloat" where
  "float_of_string s0 =
     (let s = float_strip s0;
          neg = (s \<noteq> [] \<and> hd s = CHR ''-'');
          body = (if s \<noteq> [] \<and> hd s \<in> set ''+-'' then tl s else s);
          low = map to_lower body
      in if low = ''inf'' \<or> low = ''infinity'' then Inr (if neg then NegInf else PosInf)
         else if low = ''nan'' then Inr NaN
         else case Option.bind (strip_underscores CHR ''x'' body) parse_decimal of
                None \<Rightarrow> Inl ValueError
              | Some q \<Rightarrow> Inr (to_double (if neg then - q else q)))"

section \<open>Data frames\<close>

text \<open>
  A cell is a Python object: a string, a float (the missing value of a text column is
  the float NaN) or a timestamp (\<open>None\<close> is NaT). \<open>_extract_csv\<close> reads every named
  column with \<^verbatim>\<open>dtype=str\<close>, so the frame it passes on has object columns whose cells
  are strings or NaN.
\<close>

datatype cell = Str string | Flt pyfloat | Tstamp "int option"

datatype dtype = Object | Float64 | Datetime64

text \<open>
  A frame has its column labels in order, each with the dtype of the column, and its
  rows in order. A row gives one cell to each label, in the order of the labels.
\<close>

type_synonym row = "(string \<times> cell) list"

record frame =
  columns :: "(string \<times> dtype) list"
  rows :: "row list"

definition labels :: "frame \<Rightarrow> string list" where
  "labels df = map fst (columns df)"

text \<open>
  The cell of a row under a label. A row of a frame has a cell for every label of the
  frame; for a label that a row lacks the model answers with the missing value.
\<close>

definition cell_of :: "row \<Rightarrow> string \<Rightarrow> cell" where
  "cell_of r c = (case map_of r c of Some v \<Rightarrow> v | None \<Rightarrow> Flt NaN)"

definition isna :: "cell \<Rightarrow> bool" where
  "isna c = (c = Flt NaN \<or> c = Tstamp None)"

text \<open>
  \<^verbatim>\<open>df[c]\<close>: the dtype and the cells of the column labelled \<open>c\<close>. A label the frame
  does not have is a \<^verbatim>\<open>KeyError\<close>. A label it has twice selects a frame, not a column,
  and every use the program makes of the selection then raises.
\<close>

definition dtypes_of :: "frame \<Rightarrow> string \<Rightarrow> dtype list" where
  "dtypes_of df c = map snd (filter (\<lambda>(l, t). l = c) (columns df))"

definition get_col :: "frame \<Rightarrow> string \<Rightarrow> error + (dtype \<times> cell list)" where
  "get_col df c =
     (if dtypes_of df c = [] then Inl KeyError
      else if tl (dtypes_of df c) \<noteq> [] then Inl AttributeError
      else Inr (hd (dtypes_of df c), map (\<lambda>r. cell_of r c) (rows df)))"

text \<open>
  \<^verbatim>\<open>df[c] = column\<close>: an existing column is replaced where it stands, a new one is
  added last.
\<close>

definition set_col :: "frame \<Rightarrow> string \<Rightarrow> dtype \<Rightarrow> cell list \<Rightarrow> frame" where
  "set_col df c t vs =
     \<lparr>columns = AList.update c t (columns df),
      rows = map (\<lambda>(r, v). AList.update c v r) (zip (rows df) vs)\<rparr>"

text \<open>\<^verbatim>\<open>df.drop(columns=cs, inplace=True)\<close>; a label not found is a \<^verbatim>\<open>KeyError\<close>.\<close>

definition drop_cols :: "frame \<Rightarrow> string list \<Rightarrow> error + frame" where
  "drop_cols df cs =
     (if list_ex (\<lambda>c. c \<notin> set (labels df)) cs then Inl KeyError
      else Inr \<lparr>columns = filter (\<lambda>(l, t). l \<notin> set cs) (columns df),
                rows = map (filter (\<lambda>(l, v). l \<notin> set cs)) (rows df)\<rparr>)"

text \<open>\<^verbatim>\<open>df.rename(columns=lambda x: x.strip())\<close>.\<close>

definition rename_strip :: "frame \<Rightarrow> frame" where
  "rename_strip df =
     \<lparr>columns = map (\<lambda>(l, t). (strip l, t)) (columns df),
      rows = map (map (\<lambda>(l, v). (strip l, v))) (rows df)\<rparr>"

subsection \<open>The string accessor\<close>

text \<open>
  \<^verbatim>\<open>column.str\<close> exists for an object column whose cells that are not missing are all
  strings, or of mixed kinds, or absent; otherwise it is an \<^verbatim>\<open>AttributeError\<close>. Its
  methods work cell by cell and give NaN for a cell that is not a string.
\<close>

definition is_str :: "cell \<Rightarrow> bool" where
  "is_str c = (case c of Str _ \<Rightarrow> True | _ \<Rightarrow> False)"

definition is_flt :: "cell \<Rightarrow> bool" where
  "is_flt c = (case c of Flt _ \<Rightarrow> True | _ \<Rightarrow> False)"

definition is_tstamp :: "cell \<Rightarrow> bool" where
  "is_tstamp c = (case c of Tstamp _ \<Rightarrow> True | _ \<Rightarrow> False)"

definition str_accessor :: "dtype \<times> cell list \<Rightarrow> error + cell list" where
  "str_accessor col =
     (let vs = filter (\<lambda>c. \<not> isna c) (snd col)
      in if fst col = Object \<and>
            (vs = [] \<or> list_ex is_str vs \<or> (list_ex is_flt vs \<and> list_ex is_tstamp vs))
         then Inr (snd col) else Inl AttributeError)"

definition str_replace_cell :: "string \<Rightarrow> string \<Rightarrow> cell \<Rightarrow> cell" where
  "str_replace_cell old new c =
     (case c of Str s \<Rightarrow> Str (str_replace old new s) | _ \<Rightarrow> Flt NaN)"

definition str_contains_cell :: "string \<Rightarrow> cell \<Rightarrow> bool option" where
  "str_contains_cell pat c = (case c of Str s \<Rightarrow> Some (str_contains pat s) | _ \<Rightarrow> None)"

definition str_len_cell :: "cell \<Rightarrow> nat option" where
  "str_len_cell c = (case c of Str s \<Rightarrow> Some (length s) | _ \<Rightarrow> None)"

subsection \<open>pd.to\_datetime and the day shift\<close>

text \<open>
  \<^verbatim>\<open>pd.to_datetime(column, format=f)\<close>, cell by cell: a string is parsed under the
  format, a missing value is NaT, a timestamp stays, and any other number is written out
  as text, which matches neither format. The first cell that fails raises.
\<close>

definition to_datetime_cell :: "fmt \<Rightarrow> cell \<Rightarrow> error + cell" where
  "to_datetime_cell f c =
     (case c of
        Str s \<Rightarrow> (case strptime f s of Inl e \<Rightarrow> Inl e | Inr t \<Rightarrow> Inr (Tstamp t))
      | Flt x \<Rightarrow> if x = NaN then Inr (Tstamp None) else Inl ValueError
      | Tstamp t \<Rightarrow> Inr (Tstamp t))"

definition to_datetime :: "fmt \<Rightarrow> cell list \<Rightarrow> error + cell list" where
  "to_datetime f col = mapE (to_datetime_cell f) col"

text \<open>
  \<^verbatim>\<open>check_dtime * timedelta(days=1)\<close>: a column of booleans becomes a column of time
  spans, the span \<open>d\<close> for \<open>True\<close> and no time for \<open>False\<close>. When a cell of the column
  searched was no string, its flag is missing and the flags are an object column; an
  object column times a time span is a \<^verbatim>\<open>TypeError\<close>.
\<close>

definition mul_timedelta :: "bool option list \<Rightarrow> int \<Rightarrow> error + int list" where
  "mul_timedelta flags d =
     (if list_ex (\<lambda>b. b = None) flags then Inl TypeError
      else Inr (map (\<lambda>b. if b = Some True then d else 0) flags))"

text \<open>
  \<^verbatim>\<open>casted + spans\<close>, cell by cell: NaT plus a time span is NaT, and a sum outside the
  nanosecond range raises.
\<close>

definition shift_cell :: "cell \<times> int \<Rightarrow> error + cell" where
  "shift_cell p =
     (case p of
        (Tstamp None, d) \<Rightarrow> Inr (Tstamp None)
      | (Tstamp (Some t), d) \<Rightarrow>
          (let v = t + d
           in if in_ns_range v then Inr (Tstamp (Some v)) else Inl OverflowError)
      | _ \<Rightarrow> Inl TypeError)"

section \<open>The program\<close>

subsection \<open>\_is\_float\<close>

text \<open>
  \<^verbatim>\<open>float(col)\<close>: a string is parsed, a float is itself, and a timestamp is a
  \<^verbatim>\<open>TypeError\<close>.
\<close>

definition py_float :: "cell \<Rightarrow> error + pyfloat" where
  "py_float c =
     (case c of
        Str s \<Rightarrow> float_of_string s
      | Flt x \<Rightarrow> Inr x
      | Tstamp t \<Rightarrow> Inl TypeError)"

text \<open>
  \<open>_is_float\<close> answers \<open>False\<close> on a \<^verbatim>\<open>ValueError\<close> (after printing the file name
  and the cell, which the model leaves out) and \<open>True\<close> when \<^verbatim>\<open>float\<close> returns; any
  other exception goes on to the caller.
\<close>

definition is_float :: "cell \<Rightarrow> error + bool" where
  "is_float col =
     (case py_float col of
        Inl e \<Rightarrow> if e = ValueError then Inr False else Inl e
      | Inr x \<Rightarrow> Inr True)"

subsection \<open>\_transform\_datetime\_col\<close>

definition transform_datetime_col :: "frame \<Rightarrow> error + frame" where
  "transform_datetime_col df =
     bindE (get_col df ''datetime'') (\<lambda>c0.
     bindE (str_accessor c0) (\<lambda>dt.
       let df1 = set_col df ''datetime_replaced'' Object
                   (map (str_replace_cell ''24:00'' ''00:00'') dt)
       in
     bindE (get_col df1 ''datetime_replaced'') (\<lambda>c1.
     bindE (to_datetime DateTimeFmt (snd c1)) (\<lambda>casted.
       let df2 = set_col df1 ''datetime_casted'' Datetime64 casted
       in
     bindE (get_col df2 ''datetime'') (\<lambda>c2.
     bindE (str_accessor c2) (\<lambda>dt2.
       let check_dtime = map (str_contains_cell ''24:00'') dt2
       in
     bindE (get_col df2 ''datetime_casted'') (\<lambda>c3.
     bindE (mul_timedelta check_dtime ns_per_day) (\<lambda>spans.
     bindE (mapE shift_cell (zip (snd c3) spans)) (\<lambda>shifted.
       let df3 = set_col df2 ''datetime'' Datetime64 shifted
       in drop_cols df3 [''datetime_replaced'', ''datetime_casted''])))))))))"

subsection \<open>\_clean\_file\<close>

text \<open>
  \<^verbatim>\<open>df[df[c].apply(self._is_float)]\<close>. On a column with cells, \<open>apply\<close> gives a
  column of booleans and the rows with \<open>True\<close> are kept. On a column with no cells,
  \<open>apply\<close> gives an empty object column; pandas reads that as an empty list of labels,
  and the selection is a frame with no columns.
\<close>

definition filter_float :: "frame \<Rightarrow> cell list \<Rightarrow> error + frame" where
  "filter_float df col =
     (if col = [] then Inr \<lparr>columns = [], rows = []\<rparr>
      else bindE (mapE is_float col) (\<lambda>mask.
             Inr (df\<lparr>rows := map fst (filter snd (zip (rows df) mask))\<rparr>)))"

text \<open>
  \<^verbatim>\<open>df.astype({c: float})\<close>: \<^verbatim>\<open>float\<close> of every cell of the column; a label the
  frame does not have is a \<^verbatim>\<open>KeyError\<close>.
\<close>

definition astype_float :: "frame \<Rightarrow> string \<Rightarrow> error + frame" where
  "astype_float df c =
     bindE (get_col df c) (\<lambda>col.
     bindE (mapE py_float (snd col)) (\<lambda>vs.
       Inr (set_col df c Float64 (map Flt vs))))"

text \<open>The three lines the program repeats for each numeric column.\<close>

definition cast_numeric :: "frame \<Rightarrow> string \<Rightarrow> error + frame" where
  "cast_numeric df c =
     bindE (get_col df c) (\<lambda>col.
       if fst col \<noteq> Float64 then
         bindE (filter_float df (snd col)) (\<lambda>df1. astype_float df1 c)
       else Inr df)"

definition clean_file :: "frame \<Rightarrow> error + frame" where
  "clean_file df0 =
     (let df = rename_strip df0 in
      bindE (transform_datetime_col df) (\<lambda>df.
      bindE (get_col df ''date posted'') (\<lambda>dp.
      bindE (to_datetime DateFmt (snd dp)) (\<lambda>posted.
        let df = set_col df ''date posted'' Datetime64 posted in
      bindE (cast_numeric df ''duration (seconds)'') (\<lambda>df.
      bindE (cast_numeric df ''latitude'') (\<lambda>df.
      cast_numeric df ''longitude''))))))"

subsection \<open>\_calc\_max\_length\<close>

text \<open>
  \<^verbatim>\<open>column.str.len().max()\<close>: the greatest length among the cells that have one, as a
  number; NaN when no cell has a length. \<^verbatim>\<open>float()\<close> of it is the nearest double.
\<close>

definition max_len_float :: "nat option list \<Rightarrow> pyfloat" where
  "max_len_float lens =
     (case concat (map (\<lambda>l. case l of None \<Rightarrow> [] | Some n \<Rightarrow> [n]) lens) of
        [] \<Rightarrow> NaN
      | n # ns \<Rightarrow> to_double (of_nat (fold max ns n)))"

text \<open>The literal \<^verbatim>\<open>1.2\<close> is the double nearest to 12/10.\<close>

definition buffer :: pyfloat where
  "buffer = to_double (12 / 10)"

definition calc_max_length :: "frame \<Rightarrow> string \<Rightarrow> error + int" where
  "calc_max_length df col =
     bindE (get_col df col) (\<lambda>c.
     bindE (str_accessor c) (\<lambda>cells.
       let max_len = max_len_float (map str_len_cell cells)
       in math_ceil (fmul max_len buffer)))"

subsection \<open>\_load\_to\_db\<close>

text \<open>
  The database holds tables by name. A table has the widths of its six text columns,
  fixed when it is created, and its rows. Whether the store takes the rows of a frame
  into a table (its column names, widths and decimal ranges) is the store's own
  decision, a parameter \<open>accepts\<close> of the model; \<^verbatim>\<open>to_sql\<close> inserts all rows in one
  transaction, so a refusal leaves the rows of the table as they were.
\<close>

record table =
  widths :: "int list"
  stored :: "row list"

type_synonym database = "string \<Rightarrow> table option"

record ufo_sightings =
  file_name :: string
  table_name :: string

text \<open>\<^verbatim>\<open>meta.create_all(engine)\<close> creates the table only when the name is not taken.\<close>

definition create_all :: "string \<Rightarrow> int list \<Rightarrow> database \<Rightarrow> database" where
  "create_all name ws db =
     (case db name of
        None \<Rightarrow> db(name \<mapsto> \<lparr>widths = ws, stored = []\<rparr>)
      | Some t \<Rightarrow> db)"

text \<open>\<^verbatim>\<open>df.to_sql(name, engine, if_exists='append', index=False)\<close>.\<close>

definition to_sql ::
  "(table \<Rightarrow> frame \<Rightarrow> bool) \<Rightarrow> frame \<Rightarrow> string \<Rightarrow> database \<Rightarrow> error + database" where
  "to_sql accepts df name db =
     (case db name of
        None \<Rightarrow> Inr (db(name \<mapsto> \<lparr>widths = [], stored = rows df\<rparr>))
      | Some t \<Rightarrow>
          if accepts t df then Inr (db(name \<mapsto> t\<lparr>stored := stored t @ rows df\<rparr>))
          else Inl DatabaseError)"

text \<open>
  The result of a step that changes the database is the database after it and the
  exception it raised, if any.
\<close>

definition load_to_db ::
  "(table \<Rightarrow> frame \<Rightarrow> bool) \<Rightarrow> ufo_sightings \<Rightarrow> frame \<Rightarrow> database \<Rightarrow>
     database \<times> error option" where
  "load_to_db accepts self df db =
     (case mapE (calc_max_length df)
             [''city'', ''state'', ''country'', ''shape'', ''duration (hours/min)'', ''comments'']
      of
        Inl e \<Rightarrow> (db, Some e)
      | Inr ws \<Rightarrow>
          let db1 = create_all (table_name self) ws db
          in case to_sql accepts df (table_name self) db1 of
               Inl e \<Rightarrow> (db1, Some e)
             | Inr db2 \<Rightarrow> (db2, None))"

subsection \<open>\_extract\_csv, \_transform\_csv, \_load\_csv and etl\<close>

text \<open>
  \<^verbatim>\<open>pd.read_csv\<close> and the file system are a parameter \<open>read_csv\<close>: the frame a file
  name is read to, or the exception.
\<close>

definition extract_csv :: "(string \<Rightarrow> error + frame) \<Rightarrow> ufo_sightings \<Rightarrow> error + frame" where
  "extract_csv read_csv self = read_csv (file_name self)"

text \<open>
  \<^verbatim>\<open>df.sort_values(by=c)\<close>: the rows in ascending order of the cell of column \<open>c\<close>,
  strings compared as Python compares them (by code points, a proper prefix first), the
  rows where the cell is missing last in their old order. A label the frame does not
  have is a \<^verbatim>\<open>KeyError\<close>, a label it has twice a \<^verbatim>\<open>ValueError\<close>. The model sorts
  text columns only: a key that is neither a string nor missing is a \<^verbatim>\<open>TypeError\<close>
  (as comparing it with a string is). Rows with equal keys keep their order here;
  pandas' default sort does not promise that, and nothing below relies on it.
\<close>

definition str_of :: "cell \<Rightarrow> string" where
  "str_of c = (case c of Str s \<Rightarrow> s | _ \<Rightarrow> [])"

definition sort_values :: "frame \<Rightarrow> string \<Rightarrow> error + frame" where
  "sort_values df c =
     (if dtypes_of df c = [] then Inl KeyError
      else if tl (dtypes_of df c) \<noteq> [] then Inl ValueError
      else if list_ex (\<lambda>r. \<not> is_str (cell_of r c) \<and> \<not> isna (cell_of r c)) (rows df)
      then Inl TypeError
      else Inr (df\<lparr>rows :=
             sort_key (\<lambda>r. str_of (cell_of r c)) (filter (\<lambda>r. is_str (cell_of r c)) (rows df))
             @ filter (\<lambda>r. isna (cell_of r c)) (rows df)\<rparr>))"

definition transform_csv :: "frame \<Rightarrow> error + frame" where
  "transform_csv df = bindE (sort_values df ''datetime'') clean_file"

definition load_csv ::
  "(table \<Rightarrow> frame \<Rightarrow> bool) \<Rightarrow> ufo_sightings \<Rightarrow> frame \<Rightarrow> database \<Rightarrow>
     database \<times> error option" where
  "load_csv accepts self df db = load_to_db accepts self df db"

text \<open>
  \<open>etl\<close> runs the three stages and logs the exception of the first one that raises,
  skipping the rest. Its result is the database after the run and the error logged.
\<close>

definition etl ::
  "(string \<Rightarrow> error + frame) \<Rightarrow> (table \<Rightarrow> frame \<Rightarrow> bool) \<Rightarrow> ufo_sightings \<Rightarrow> database \<Rightarrow>
     database \<times> error option" where
  "etl read_csv accepts self db =
     (case extract_csv read_csv self of
        Inl e \<Rightarrow> (db, Some e)
      | Inr df \<Rightarrow>
          (case transform_csv df of
             Inl e \<Rightarrow> (db, Some e)
           | Inr df_cleansed \<Rightarrow> load_csv accepts self df_cleansed db))"

section \<open>The cleaning stage, row by row\<close>

text \<open>
  The program works on whole columns. The functions of this section say what the same
  steps do to one row; the lemmas below show that the stage, when it returns, has done
  exactly this to every row. \<open>the_Inr d x\<close> is the result \<open>x\<close> carries, or \<open>d\<close> when \<open>x\<close>
  is an exception.
\<close>

definition the_Inr :: "'a \<Rightarrow> error + 'a \<Rightarrow> 'a" where
  "the_Inr d x = (case x of Inl e \<Rightarrow> d | Inr v \<Rightarrow> v)"

text \<open>
  Lines 39 to 42 for one cell of the \<open>datetime\<close> column: the rewrite, the parse, and
  the day added when the cell contains \<^verbatim>\<open>24:00\<close>. A cell that is no string has no
  flag.
\<close>

definition canon_datetime :: "cell \<Rightarrow> error + cell" where
  "canon_datetime c =
     bindE (to_datetime_cell DateTimeFmt (str_replace_cell ''24:00'' ''00:00'' c)) (\<lambda>t.
       case str_contains_cell ''24:00'' c of
         None \<Rightarrow> Inl TypeError
       | Some b \<Rightarrow> shift_cell (t, if b then ns_per_day else 0))"

definition drop_helpers :: "(string \<times> 'a) list \<Rightarrow> (string \<times> 'a) list" where
  "drop_helpers r = filter (\<lambda>(l, v). l \<notin> set [''datetime_replaced'', ''datetime_casted'']) r"

definition datetime_row :: "row \<Rightarrow> row" where
  "datetime_row r =
     AList.update ''datetime'' (the_Inr (Flt NaN) (canon_datetime (cell_of r ''datetime'')))
       (drop_helpers r)"

definition posted_row :: "row \<Rightarrow> row" where
  "posted_row r =
     AList.update ''date posted''
       (the_Inr (Flt NaN) (to_datetime_cell DateFmt (cell_of r ''date posted''))) r"

definition strip_row :: "row \<Rightarrow> row" where
  "strip_row r = map (\<lambda>(l, v). (strip l, v)) r"

definition float_ok :: "string \<Rightarrow> row \<Rightarrow> bool" where
  "float_ok c r = (is_float (cell_of r c) = Inr True)"

definition float_row :: "string \<Rightarrow> row \<Rightarrow> row" where
  "float_row c r = AList.update c (Flt (the_Inr NaN (py_float (cell_of r c)))) r"

definition numeric_ok :: "row \<Rightarrow> bool" where
  "numeric_ok r =
     (float_ok ''duration (seconds)'' r \<and> float_ok ''latitude'' r \<and> float_ok ''longitude'' r)"

definition clean_row :: "row \<Rightarrow> row" where
  "clean_row r =
     float_row ''longitude'' (float_row ''latitude'' (float_row ''duration (seconds)''
       (posted_row (datetime_row r))))"

section \<open>Example frames\<close>

text \<open>
  A frame with the column \<open>datetime\<close> alone and one row, for the examples.
\<close>

definition one_cell :: "dtype \<Rightarrow> cell \<Rightarrow> frame" where
  "one_cell t c = \<lparr>columns = [(''datetime'', t)], rows = [[(''datetime'', c)]]\<rparr>"

text \<open>
  Frames for the examples: the columns the program reads, with \<open>city\<close> for the text
  columns, every cell a string as \<open>read_csv\<close> yields it.
\<close>

definition raw_columns :: "(string \<times> dtype) list" where
  "raw_columns =
     [(''datetime'', Object), (''city'', Object), (''duration (seconds)'', Object),
      (''date posted'', Object), (''latitude'', Object), (''longitude'', Object)]"

definition raw_row :: "cell \<Rightarrow> cell \<Rightarrow> cell \<Rightarrow> cell \<Rightarrow> cell \<Rightarrow> cell \<Rightarrow> row" where
  "raw_row dt city dur dp lat lon =
     [(''datetime'', dt), (''city'', city), (''duration (seconds)'', dur),
      (''date posted'', dp), (''latitude'', lat), (''longitude'', lon)]"

definition clean_columns :: "(string \<times> dtype) list" where
  "clean_columns =
     [(''datetime'', Datetime64), (''city'', Object), (''duration (seconds)'', Float64),
      (''date posted'', Datetime64), (''latitude'', Float64), (''longitude'', Float64)]"

definition sort_example :: frame where
  "sort_example = \<lparr>columns = raw_columns, rows =
     [raw_row (Str ''01/01/2021 05:00'') (Str ''a'') (Str ''5'') (Str ''01/20/2021'')
        (Str ''1.5'') (Str ''-2.5''),
      raw_row (Str ''06/01/2020 12:00'') (Str ''b'') (Str ''5'') (Str ''01/20/2021'')
        (Str ''1.5'') (Str ''-2.5''),
      raw_row (Str ''01/01/2021 04:00'') (Str ''c'') (Str ''5'') (Str ''01/20/2021'')
        (Str ''1.5'') (Str ''-2.5'')]\<rparr>"

definition bad_date_example :: frame where
  "bad_date_example = \<lparr>columns = raw_columns, rows =
     [raw_row (Str ''01/01/2021 04:00'') (Str ''a'') (Str ''5'') (Str ''13/40/2020'')
        (Str ''1.5'') (Str ''-2.5'')]\<rparr>"

text \<open>A cleaned row of the example frames.\<close>

definition clean_row_of :: "int \<Rightarrow> cell \<Rightarrow> pyfloat \<Rightarrow> int \<Rightarrow> pyfloat \<Rightarrow> pyfloat \<Rightarrow> row" where
  "clean_row_of dt city dur dp lat lon =
     [(''datetime'', Tstamp (Some dt)), (''city'', city), (''duration (seconds)'', Flt dur),
      (''date posted'', Tstamp (Some dp)), (''latitude'', Flt lat), (''longitude'', Flt lon)]"

text \<open>
  The rows of the specification's example: row A with a latitude that is no number, row B with
  a duration that is no number, row C with three numbers.
\<close>

definition numeric_example :: frame where
  "numeric_example = \<lparr>columns = raw_columns, rows =
     [raw_row (Str ''01/01/2021 04:00'') (Str ''a'') (Str ''5'') (Str ''01/20/2021'')
        (Str ''north'') (Str ''-2.5''),
      raw_row (Str ''01/01/2021 05:00'') (Str ''b'') (Str ''5 min'') (Str ''01/20/2021'')
        (Str ''1.5'') (Str ''-2.5''),
      raw_row (Str ''06/01/2020 12:00'') (Str ''c'') (Str ''5'') (Str ''01/20/2021'')
        (Str ''1.5'') (Str ''-2.5'')]\<rparr>"

text \<open>
  A row whose duration is negative, whose latitude is \<^verbatim>\<open>inf\<close> and whose longitude is
  missing.
\<close>

definition nonfinite_example :: frame where
  "nonfinite_example = \<lparr>columns = raw_columns, rows =
     [raw_row (Str ''06/01/2020 12:00'') (Str ''d'') (Str ''-5'') (Str ''01/20/2021'')
        (Str ''inf'') (Flt NaN)]\<rparr>"

text \<open>A frame with a column of its own named like a helper column of the program.\<close>

definition helper_example :: frame where
  "helper_example = \<lparr>columns = raw_columns @ [(''datetime_casted'', Object)], rows =
     [raw_row (Str ''06/01/2020 12:00'') (Str ''d'') (Str ''5'') (Str ''01/20/2021'')
        (Str ''1.5'') (Str ''-2.5'') @ [(''datetime_casted'', Str ''noon'')]]\<rparr>"

text \<open>The frame the cleaning stage makes of \<open>nonfinite_example\<close>.\<close>

definition nonfinite_clean :: frame where
  "nonfinite_clean = \<lparr>columns = clean_columns, rows =
     [clean_row_of (civil_ns 2020 6 1 12 0) (Str ''d'') (Fin (- 5)) (civil_ns 2021 1 20 0 0)
        PosInf NaN]\<rparr>"

text \<open>
  A file whose one row has a duration that is no number, and a file of two rows, the
  first with a duration and the second with a latitude that is no number.
\<close>

definition bad_duration_example :: frame where
  "bad_duration_example = \<lparr>columns = raw_columns, rows =
     [raw_row (Str ''01/01/2021 05:00'') (Str ''a'') (Str ''5 min'') (Str ''01/20/2021'')
        (Str ''1.5'') (Str ''-2.5'')]\<rparr>"

definition two_bad_example :: frame where
  "two_bad_example = \<lparr>columns = raw_columns, rows =
     [raw_row (Str ''01/01/2021 04:00'') (Str ''a'') (Str ''5 min'') (Str ''01/20/2021'')
        (Str ''1.5'') (Str ''-2.5''),
      raw_row (Str ''01/01/2021 05:00'') (Str ''b'') (Str ''5'') (Str ''01/20/2021'')
        (Str ''north'') (Str ''-2.5'')]\<rparr>"

text \<open>The lengths of the cells of a column that are strings, in order.\<close>

definition str_lens :: "cell list \<Rightarrow> nat list" where
  "str_lens cells =
     concat (map (\<lambda>l. case l of None \<Rightarrow> [] | Some n \<Rightarrow> [n]) (map str_len_cell cells))"

text \<open>A frame of one text column, for the examples.\<close>

definition text_column :: "string \<Rightarrow> cell list \<Rightarrow> frame" where
  "text_column c cells = \<lparr>columns = [(c, Object)], rows = map (\<lambda>v. [(c, v)]) cells\<rparr>"

text \<open>A cleaned frame of one row with the six text columns, and the program's object.\<close>

definition load_example :: frame where
  "load_example = \<lparr>columns =
       [(''city'', Object), (''state'', Object), (''country'', Object), (''shape'', Object),
        (''duration (hours/min)'', Object), (''comments'', Object)],
     rows =
       [[(''city'', Str ''rome''), (''state'', Str ''rm''), (''country'', Str ''it''),
         (''shape'', Str ''disk''), (''duration (hours/min)'', Str ''5 min''),
         (''comments'', Str ''bright'')]]\<rparr>"

definition ufo :: ufo_sightings where
  "ufo = \<lparr>file_name = ''scrubbed.csv'', table_name = ''ufo''\<rparr>"

section \<open>Sequencing, columns and rows\<close>

lemma bindE_Inr [simp]: "bindE (Inr x) f = f x"
  by (simp add: bindE_def)

lemma bindE_Inl [simp]: "bindE (Inl e) f = Inl e"
  by (simp add: bindE_def)

lemma bindE_eq_Inr: "(bindE m f = Inr y) = (\<exists>x. m = Inr x \<and> f x = Inr y)"
  by (cases m) auto

lemma mapE_Inr_map: "mapE f xs = Inr ys \<Longrightarrow> ys = map (\<lambda>x. the_Inr d (f x)) xs"
  by (induction xs arbitrary: ys) (auto simp: the_Inr_def split: sum.splits)

lemma mapE_Inr_all: "mapE f xs = Inr ys \<Longrightarrow> x \<in> set xs \<Longrightarrow> \<exists>y. f x = Inr y"
  by (induction xs arbitrary: ys) (auto split: sum.splits)

lemma str_replace_absent:
  "old \<noteq> [] \<Longrightarrow> \<not> str_contains old s \<Longrightarrow> str_replace old new s = s"
proof (induction s)
  case Nil
  then show ?case by (simp add: str_replace.simps)
next
  case (Cons c s)
  then show ?case by (subst str_replace.simps) auto
qed

lemma cell_of_update: "cell_of (AList.update k v r) c = (if c = k then v else cell_of r c)"
  by (simp add: cell_of_def update_conv')

lemma filter_update_drop:
  "\<not> P k \<Longrightarrow> filter (\<lambda>(l, v). P l) (AList.update k v r) = filter (\<lambda>(l, v). P l) r"
  by (induction r) auto

lemma filter_update_keep:
  "P k \<Longrightarrow> filter (\<lambda>(l, v). P l) (AList.update k v r) = AList.update k v (filter (\<lambda>(l, v). P l) r)"
  by (induction r) auto

lemma cell_of_filter: "P c \<Longrightarrow> cell_of (filter (\<lambda>(l, v). P l) r) c = cell_of r c"
  by (induction r) (auto simp: cell_of_def)

lemma get_col_Inr:
  "get_col df c = Inr col \<Longrightarrow>
     snd col = map (\<lambda>r. cell_of r c) (rows df) \<and> dtypes_of df c = [fst col]"
  by (cases "dtypes_of df c") (auto simp: get_col_def split: if_splits)

lemma set_col_map:
  "set_col df c t (map g (rows df)) =
     \<lparr>columns = AList.update c t (columns df),
      rows = map (\<lambda>r. AList.update c (g r) r) (rows df)\<rparr>"
  by (simp add: set_col_def zip_map2 zip_same_conv_map o_def)

lemma str_accessor_Inr: "str_accessor col = Inr cells \<Longrightarrow> cells = snd col \<and> fst col = Object"
  by (auto simp: str_accessor_def Let_def split: if_splits)

lemma drop_cols_Inr:
  "drop_cols df [''datetime_replaced'', ''datetime_casted''] = Inr df' \<Longrightarrow>
     columns df' = drop_helpers (columns df) \<and> rows df' = map drop_helpers (rows df)"
  by (auto simp: drop_cols_def drop_helpers_def split: if_splits)

lemma drop_helpers_update_helper:
  "l \<in> set [''datetime_replaced'', ''datetime_casted''] \<Longrightarrow>
     drop_helpers (AList.update l v r) = drop_helpers r"
  unfolding drop_helpers_def by (rule filter_update_drop) simp

lemma drop_helpers_update_other:
  "l \<notin> set [''datetime_replaced'', ''datetime_casted''] \<Longrightarrow>
     drop_helpers (AList.update l v r) = AList.update l v (drop_helpers r)"
  unfolding drop_helpers_def by (rule filter_update_keep) simp

lemma set_col_columns: "columns (set_col df c t vs) = AList.update c t (columns df)"
  by (simp add: set_col_def)

lemma rows_set_col_map:
  "rows df = map F rs \<Longrightarrow>
     rows (set_col df c t (map g rs)) = map (\<lambda>r. AList.update c (g r) (F r)) rs"
  by (simp add: set_col_def zip_map_map zip_same_conv_map)

lemma get_col_snd: "get_col df c = Inr col \<Longrightarrow> rows df = map F rs \<Longrightarrow>
    snd col = map (\<lambda>r. cell_of (F r) c) rs"
  by (drule get_col_Inr) simp

lemma transform_datetime_col_Inr:
  assumes ok: "transform_datetime_col df = Inr df'"
  shows "rows df' = map datetime_row (rows df)"
    and "columns df' = AList.update ''datetime'' Datetime64 (drop_helpers (columns df))"
    and "get_col df ''datetime'' = Inr (Object, map (\<lambda>r. cell_of r ''datetime'') (rows df))"
    and "\<And>r. r \<in> set (rows df) \<Longrightarrow> \<exists>v. canon_datetime (cell_of r ''datetime'') = Inr v"
proof -
  let ?rep = "\<lambda>r. str_replace_cell ''24:00'' ''00:00'' (cell_of r ''datetime'')"
  let ?chk = "\<lambda>r. str_contains_cell ''24:00'' (cell_of r ''datetime'')"
  let ?cast = "\<lambda>r. the_Inr (Flt NaN) (to_datetime_cell DateTimeFmt (?rep r))"
  let ?span = "\<lambda>r. if ?chk r = Some True then ns_per_day else 0"
  let ?shift = "\<lambda>r. the_Inr (Flt NaN) (shift_cell (?cast r, ?span r))"
  let ?F1 = "\<lambda>r. AList.update ''datetime_replaced'' (?rep r) r"
  let ?F2 = "\<lambda>r. AList.update ''datetime_casted'' (?cast r) (?F1 r)"
  let ?F3 = "\<lambda>r. AList.update ''datetime'' (?shift r) (?F2 r)"
  from ok obtain c0 dt c1 casted c2 dt2 c3 spans shifted where
    g0: "get_col df ''datetime'' = Inr c0" and
    a0: "str_accessor c0 = Inr dt" and
    g1: "get_col (set_col df ''datetime_replaced'' Object
           (map (str_replace_cell ''24:00'' ''00:00'') dt)) ''datetime_replaced'' = Inr c1" and
    td: "to_datetime DateTimeFmt (snd c1) = Inr casted" and
    g2: "get_col (set_col (set_col df ''datetime_replaced'' Object
           (map (str_replace_cell ''24:00'' ''00:00'') dt)) ''datetime_casted'' Datetime64 casted)
           ''datetime'' = Inr c2" and
    a2: "str_accessor c2 = Inr dt2" and
    g3: "get_col (set_col (set_col df ''datetime_replaced'' Object
           (map (str_replace_cell ''24:00'' ''00:00'') dt)) ''datetime_casted'' Datetime64 casted)
           ''datetime_casted'' = Inr c3" and
    ml: "mul_timedelta (map (str_contains_cell ''24:00'') dt2) ns_per_day = Inr spans" and
    sh: "mapE shift_cell (zip (snd c3) spans) = Inr shifted" and
    dr: "drop_cols (set_col (set_col (set_col df ''datetime_replaced'' Object
           (map (str_replace_cell ''24:00'' ''00:00'') dt)) ''datetime_casted'' Datetime64 casted)
           ''datetime'' Datetime64 shifted) [''datetime_replaced'', ''datetime_casted''] = Inr df'"
    unfolding transform_datetime_col_def Let_def bindE_eq_Inr by blast
  have dt: "dt = map (\<lambda>r. cell_of r ''datetime'') (rows df)" and c0: "fst c0 = Object"
    using get_col_Inr [OF g0] str_accessor_Inr [OF a0] by simp_all
  with get_col_Inr [OF g0]
  show g: "get_col df ''datetime'' = Inr (Object, map (\<lambda>r. cell_of r ''datetime'') (rows df))"
    using g0 by (cases c0) simp
  have rep: "map (str_replace_cell ''24:00'' ''00:00'') dt = map ?rep (rows df)"
    by (simp add: dt)
  have r1: "rows (set_col df ''datetime_replaced'' Object (map ?rep (rows df))) = map ?F1 (rows df)"
    by (rule rows_set_col_map) simp
  have c1: "snd c1 = map ?rep (rows df)"
    using get_col_snd [OF g1 [unfolded rep] r1] by (simp add: cell_of_update)
  have casted: "casted = map ?cast (rows df)"
    using mapE_Inr_map [OF td [unfolded to_datetime_def], of "Flt NaN"] by (simp add: c1)
  have r2: "rows (set_col (set_col df ''datetime_replaced'' Object (map ?rep (rows df)))
      ''datetime_casted'' Datetime64 (map ?cast (rows df))) = map ?F2 (rows df)"
    by (rule rows_set_col_map) (rule r1)
  have c3: "snd c3 = map ?cast (rows df)"
    using get_col_snd [OF g3 [unfolded rep casted] r2] by (simp add: cell_of_update)
  have dt2: "dt2 = map (\<lambda>r. cell_of r ''datetime'') (rows df)"
    using get_col_snd [OF g2 [unfolded rep casted] r2] str_accessor_Inr [OF a2]
    by (simp add: cell_of_update)
  have fl: "?chk r \<noteq> None" if "r \<in> set (rows df)" for r
  proof
    assume n: "?chk r = None"
    from that have m: "?chk r \<in> set (map (str_contains_cell ''24:00'') dt2)"
      by (simp add: dt2)
    have "list_ex (\<lambda>b. b = None) (map (str_contains_cell ''24:00'') dt2)"
      unfolding list_ex_iff using n m by (rule bexI)
    with ml show False by (simp add: mul_timedelta_def)
  qed
  from ml have spans: "spans = map ?span (rows df)"
    by (auto simp: mul_timedelta_def dt2 split: if_splits)
  have z: "zip (snd c3) spans = map (\<lambda>r. (?cast r, ?span r)) (rows df)"
    by (simp add: c3 spans zip_map_map zip_same_conv_map)
  have shifted: "shifted = map ?shift (rows df)"
    using mapE_Inr_map [OF sh [unfolded z], of "Flt NaN"] by simp
  have r3: "rows (set_col (set_col (set_col df ''datetime_replaced'' Object (map ?rep (rows df)))
      ''datetime_casted'' Datetime64 (map ?cast (rows df))) ''datetime'' Datetime64
      (map ?shift (rows df))) = map ?F3 (rows df)"
    by (rule rows_set_col_map) (rule r2)
  have canon: "\<exists>v. canon_datetime (cell_of r ''datetime'') = Inr v \<and> ?shift r = v"
    if "r \<in> set (rows df)" for r
  proof -
    from that have "?rep r \<in> set (snd c1)" by (simp add: c1)
    from mapE_Inr_all [OF td [unfolded to_datetime_def] this]
    obtain t where t: "to_datetime_cell DateTimeFmt (?rep r) = Inr t" by blast
    from that have "(?cast r, ?span r) \<in> set (map (\<lambda>r. (?cast r, ?span r)) (rows df))" by simp
    from mapE_Inr_all [OF sh [unfolded z] this]
    obtain v where v: "shift_cell (?cast r, ?span r) = Inr v" by blast
    from fl [OF that] obtain b where b: "?chk r = Some b" by auto
    from t v show ?thesis by (simp add: canon_datetime_def the_Inr_def b)
  qed
  then show "\<exists>v. canon_datetime (cell_of r ''datetime'') = Inr v" if "r \<in> set (rows df)" for r
    using that by blast
  have "rows df' = map drop_helpers (map ?F3 (rows df))"
    using drop_cols_Inr [OF dr [unfolded rep casted shifted]] r3 by simp
  also have "\<dots> = map datetime_row (rows df)"
  proof -
    have "drop_helpers (?F3 r) = datetime_row r" if "r \<in> set (rows df)" for r
    proof -
      from canon [OF that] have "?shift r = the_Inr (Flt NaN) (canon_datetime (cell_of r ''datetime''))"
        by (auto simp: the_Inr_def)
      then show ?thesis
        by (simp add: datetime_row_def drop_helpers_update_helper drop_helpers_update_other)
    qed
    then show ?thesis by simp
  qed
  finally show "rows df' = map datetime_row (rows df)" .
  show "columns df' = AList.update ''datetime'' Datetime64 (drop_helpers (columns df))"
    using drop_cols_Inr [OF dr]
    by (simp add: set_col_columns drop_helpers_update_helper drop_helpers_update_other)
qed

lemma filter_zip_mask: "map fst (filter snd (zip rs (map m rs))) = filter m rs"
  by (induction rs) auto

lemma get_col_empty_frame: "get_col \<lparr>columns = [], rows = []\<rparr> c = Inl KeyError"
  by (simp add: get_col_def dtypes_of_def)

lemma is_float_True_iff: "(is_float x = Inr True) = (\<exists>v. py_float x = Inr v)"
  by (auto simp: is_float_def split: sum.splits)

lemma cast_numeric_Inr:
  assumes ok: "cast_numeric df c = Inr df'" and obj: "\<forall>t. (c, t) \<in> set (columns df) \<longrightarrow> t = Object"
  shows "rows df' = map (float_row c) (filter (float_ok c) (rows df))"
    and "columns df' = AList.update c Float64 (columns df)"
    and "rows df \<noteq> []"
    and "(c, Object) \<in> set (columns df)"
proof -
  from ok obtain col where g: "get_col df c = Inr col"
    and rest: "(if fst col \<noteq> Float64 then bindE (filter_float df (snd col)) (\<lambda>df1. astype_float df1 c)
           else Inr df) = Inr df'"
    unfolding cast_numeric_def bindE_eq_Inr by blast
  from get_col_Inr [OF g] have "fst col \<in> set (dtypes_of df c)" by simp
  then have "(c, fst col) \<in> set (columns df)" by (auto simp: dtypes_of_def)
  with obj get_col_Inr [OF g] have col: "snd col = map (\<lambda>r. cell_of r c) (rows df)"
    and fc: "fst col = Object" and "(c, Object) \<in> set (columns df)" by auto
  then show "(c, Object) \<in> set (columns df)" by simp
  from fc rest obtain df1 where f: "filter_float df (snd col) = Inr df1"
    and a: "astype_float df1 c = Inr df'"
    by (auto simp: bindE_eq_Inr)
  from a obtain col1 vs where g1: "get_col df1 c = Inr col1"
    and p: "mapE py_float (snd col1) = Inr vs"
    and df': "df' = set_col df1 c Float64 (map Flt vs)"
    by (auto simp: astype_float_def bindE_eq_Inr)
  have ne: "snd col \<noteq> []"
  proof
    assume "snd col = []"
    with f have "df1 = \<lparr>columns = [], rows = []\<rparr>" by (simp add: filter_float_def)
    with g1 show False by (simp add: get_col_empty_frame)
  qed
  then show "rows df \<noteq> []" by (simp add: col)
  from f ne obtain mask where m: "mapE is_float (snd col) = Inr mask"
    and df1: "df1 = df\<lparr>rows := map fst (filter snd (zip (rows df) mask))\<rparr>"
    by (auto simp: filter_float_def bindE_eq_Inr)
  have mask: "mask = map (\<lambda>r. the_Inr False (is_float (cell_of r c))) (rows df)"
    using mapE_Inr_map [OF m, of False] by (simp add: col)
  have ok_iff: "the_Inr False (is_float (cell_of r c)) = float_ok c r" for r
    by (cases "is_float (cell_of r c)") (auto simp: the_Inr_def float_ok_def)
  have r1: "rows df1 = filter (float_ok c) (rows df)"
    by (simp add: df1 mask filter_zip_mask ok_iff)
  have c1: "columns df1 = columns df" by (simp add: df1)
  have vs: "vs = map (\<lambda>r. the_Inr NaN (py_float (cell_of r c))) (rows df1)"
    using mapE_Inr_map [OF p, of NaN] get_col_Inr [OF g1] by simp
  have "map Flt vs = map (\<lambda>r. Flt (the_Inr NaN (py_float (cell_of r c)))) (rows df1)"
    by (simp add: vs)
  then have "df' = set_col df1 c Float64 (map (\<lambda>r. Flt (the_Inr NaN (py_float (cell_of r c)))) (rows df1))"
    by (simp add: df')
  then have "rows df' = map (float_row c) (rows df1)" and "columns df' = AList.update c Float64 (columns df1)"
    by (simp_all add: set_col_map float_row_def)
  then show "rows df' = map (float_row c) (filter (float_ok c) (rows df))"
    and "columns df' = AList.update c Float64 (columns df)"
    by (simp_all add: r1 c1)
qed

lemma set_update_other: "(l, t) \<in> set (AList.update k v al) \<Longrightarrow> l \<noteq> k \<Longrightarrow> (l, t) \<in> set al"
  by (induction al) (auto split: if_splits)

lemma cell_of_drop_helpers:
  "c \<notin> set [''datetime_replaced'', ''datetime_casted''] \<Longrightarrow> cell_of (drop_helpers r) c = cell_of r c"
  unfolding drop_helpers_def by (rule cell_of_filter) simp

lemma cell_of_datetime_row:
  "c \<notin> set [''datetime'', ''datetime_replaced'', ''datetime_casted''] \<Longrightarrow>
     cell_of (datetime_row r) c = cell_of r c"
  by (simp add: datetime_row_def cell_of_update cell_of_drop_helpers)

lemma cell_of_posted_row: "c \<noteq> ''date posted'' \<Longrightarrow> cell_of (posted_row r) c = cell_of r c"
  by (simp add: posted_row_def cell_of_update)

lemma cell_of_float_row: "c \<noteq> k \<Longrightarrow> cell_of (float_row k r) c = cell_of r c"
  by (simp add: float_row_def cell_of_update)

lemma rename_strip_rows: "rows (rename_strip df) = map strip_row (rows df)"
  by (simp add: rename_strip_def strip_row_def)

lemma rename_strip_columns: "columns (rename_strip df) = map (\<lambda>(l, t). (strip l, t)) (columns df)"
  by (simp add: rename_strip_def)

lemma get_col_label: "get_col df c = Inr col \<Longrightarrow> c \<in> fst ` set (columns df)"
proof -
  assume "get_col df c = Inr col"
  then have "dtypes_of df c \<noteq> []" by (auto simp: get_col_def split: if_splits)
  then have "filter (\<lambda>(l, t). l = c) (columns df) \<noteq> []" by (simp add: dtypes_of_def)
  then obtain p where "p \<in> set (columns df)" and "fst p = c"
    by (auto simp: filter_empty_conv)
  then show ?thesis by (auto simp: image_iff)
qed

lemma pair_label: "(c, t) \<in> set al \<Longrightarrow> c \<in> fst ` set al"
  by (auto simp: image_iff intro: bexI [where x = "(c, t)"])

lemma label_drop_helpers:
  "c \<in> fst ` set al \<Longrightarrow> c \<notin> set [''datetime_replaced'', ''datetime_casted''] \<Longrightarrow>
     c \<in> fst ` set (drop_helpers al)"
  by (auto simp: drop_helpers_def image_iff)

lemma keys_update_present: "k \<in> fst ` set al \<Longrightarrow> map fst (AList.update k v al) = map fst al"
  by (simp add: update_keys)

lemma clean_file_Inr:
  assumes ok: "clean_file df0 = Inr df'"
    and obj: "list_all (\<lambda>(l, t). t = Object) (columns df0)"
  shows "rows df' = map clean_row (filter numeric_ok (map strip_row (rows df0)))"
    and "columns df' =
      AList.update ''longitude'' Float64 (AList.update ''latitude'' Float64
        (AList.update ''duration (seconds)'' Float64 (AList.update ''date posted'' Datetime64
          (AList.update ''datetime'' Datetime64
            (drop_helpers (map (\<lambda>(l, t). (strip l, t)) (columns df0)))))))"
    and "labels df' =
      filter (\<lambda>l. l \<notin> set [''datetime_replaced'', ''datetime_casted''])
        (map strip (labels df0))"
proof -
  from ok obtain df1 dp posted df3 df4 where
    t: "transform_datetime_col (rename_strip df0) = Inr df1" and
    g: "get_col df1 ''date posted'' = Inr dp" and
    p: "to_datetime DateFmt (snd dp) = Inr posted" and
    n1: "cast_numeric (set_col df1 ''date posted'' Datetime64 posted) ''duration (seconds)'' = Inr df3" and
    n2: "cast_numeric df3 ''latitude'' = Inr df4" and
    n3: "cast_numeric df4 ''longitude'' = Inr df'"
    unfolding clean_file_def Let_def bindE_eq_Inr by blast
  note tdc = transform_datetime_col_Inr [OF t]
  have r1: "rows df1 = map datetime_row (map strip_row (rows df0))"
    using tdc(1) by (simp add: rename_strip_rows)
  have c1: "columns df1 = AList.update ''datetime'' Datetime64
      (drop_helpers (map (\<lambda>(l, t). (strip l, t)) (columns df0)))"
    using tdc(2) by (simp add: rename_strip_columns)
  have posted: "posted = map (\<lambda>r. the_Inr (Flt NaN) (to_datetime_cell DateFmt (cell_of r ''date posted''))) (rows df1)"
    using mapE_Inr_map [OF p [unfolded to_datetime_def], of "Flt NaN"] get_col_Inr [OF g] by simp
  let ?df2 = "set_col df1 ''date posted'' Datetime64 posted"
  have r2: "rows ?df2 = map posted_row (rows df1)"
    and c2: "columns ?df2 = AList.update ''date posted'' Datetime64 (columns df1)"
    by (simp_all add: posted set_col_map posted_row_def)
  have obj0: "t = Object" if "(l, t) \<in> set (drop_helpers (map (\<lambda>(l, t). (strip l, t)) (columns df0)))" for l t
    using that obj by (auto simp: drop_helpers_def list_all_iff)
  have o2: "\<forall>t. (''duration (seconds)'', t) \<in> set (columns ?df2) \<longrightarrow> t = Object"
    unfolding c2 c1 by (auto dest!: set_update_other dest: obj0)
  note k1 = cast_numeric_Inr [OF n1 o2]
  have o3: "\<forall>t. (''latitude'', t) \<in> set (columns df3) \<longrightarrow> t = Object"
    unfolding k1(2) c2 c1 by (auto dest!: set_update_other dest: obj0)
  note k2 = cast_numeric_Inr [OF n2 o3]
  have o4: "\<forall>t. (''longitude'', t) \<in> set (columns df4) \<longrightarrow> t = Object"
    unfolding k2(2) k1(2) c2 c1 by (auto dest!: set_update_other dest: obj0)
  note k3 = cast_numeric_Inr [OF n3 o4]
  show "columns df' =
      AList.update ''longitude'' Float64 (AList.update ''latitude'' Float64
        (AList.update ''duration (seconds)'' Float64 (AList.update ''date posted'' Datetime64
          (AList.update ''datetime'' Datetime64
            (drop_helpers (map (\<lambda>(l, t). (strip l, t)) (columns df0)))))))"
    by (simp add: k3(2) k2(2) k1(2) c2 c1)
  show "rows df' = map clean_row (filter numeric_ok (map strip_row (rows df0)))"
    unfolding k3(1) k2(1) k1(1) r2 r1
    by (simp add: filter_map o_def float_ok_def numeric_ok_def clean_row_def
        cell_of_float_row cell_of_posted_row cell_of_datetime_row conj_commute conj_left_commute)
  let ?cs = "drop_helpers (map (\<lambda>(l, t). (strip l, t)) (columns df0))"
  have cs: "columns df' =
      AList.update ''longitude'' Float64 (AList.update ''latitude'' Float64
        (AList.update ''duration (seconds)'' Float64 (AList.update ''date posted'' Datetime64
          (AList.update ''datetime'' Datetime64 ?cs))))"
    by (simp add: k3(2) k2(2) k1(2) c2 c1)
  have "''datetime'' \<in> fst ` set (columns (rename_strip df0))"
    using tdc(3) by (rule get_col_label)
  then have "''datetime'' \<in> fst ` set (map (\<lambda>(l, t). (strip l, t)) (columns df0))"
    by (simp only: rename_strip_columns)
  then have l1: "''datetime'' \<in> fst ` set ?cs"
    by (rule label_drop_helpers) simp
  have "''date posted'' \<in> fst ` set (columns df1)" using g by (rule get_col_label)
  then have l2: "''date posted'' \<in> fst ` set (AList.update ''datetime'' Datetime64 ?cs)"
    by (simp only: c1)
  from k1(4) have l3: "''duration (seconds)'' \<in> fst ` set
      (AList.update ''date posted'' Datetime64 (AList.update ''datetime'' Datetime64 ?cs))"
    unfolding c2 c1 by (rule pair_label)
  from k2(4) have l4: "''latitude'' \<in> fst ` set (AList.update ''duration (seconds)'' Float64
      (AList.update ''date posted'' Datetime64 (AList.update ''datetime'' Datetime64 ?cs)))"
    unfolding k1(2) c2 c1 by (rule pair_label)
  from k3(4) have l5: "''longitude'' \<in> fst ` set (AList.update ''latitude'' Float64
      (AList.update ''duration (seconds)'' Float64
        (AList.update ''date posted'' Datetime64 (AList.update ''datetime'' Datetime64 ?cs))))"
    unfolding k2(2) k1(2) c2 c1 by (rule pair_label)
  have "labels df' = map fst ?cs"
    unfolding labels_def cs
    by (simp only: keys_update_present l1 l2 l3 l4 l5)
  also have "\<dots> = filter (\<lambda>l. l \<notin> set [''datetime_replaced'', ''datetime_casted''])
      (map strip (labels df0))"
    by (simp add: drop_helpers_def labels_def filter_map o_def split_def)
  finally show "labels df' =
      filter (\<lambda>l. l \<notin> set [''datetime_replaced'', ''datetime_casted''])
        (map strip (labels df0))" .
qed

lemma sort_values_Inr:
  assumes "sort_values df c = Inr df'"
  shows "set (rows df') = set (rows df)" and "columns df' = columns df"
proof -
  from assms have nb: "\<not> list_ex (\<lambda>r. \<not> is_str (cell_of r c) \<and> \<not> isna (cell_of r c)) (rows df)"
    and df': "df' = df\<lparr>rows :=
             sort_key (\<lambda>r. str_of (cell_of r c)) (filter (\<lambda>r. is_str (cell_of r c)) (rows df))
             @ filter (\<lambda>r. isna (cell_of r c)) (rows df)\<rparr>"
    by (auto simp: sort_values_def split: if_splits)
  from nb have "is_str (cell_of r c) \<or> isna (cell_of r c)" if "r \<in> set (rows df)" for r
    using that by (auto simp: list_ex_iff)
  then show "set (rows df') = set (rows df)"
    by (auto simp: df')
  show "columns df' = columns df" by (simp add: df')
qed

lemma canon_datetime_Str:
  "canon_datetime (Str s) = Inr v \<Longrightarrow>
     \<exists>t. strptime DateTimeFmt (str_replace ''24:00'' ''00:00'' s) = Inr t"
  by (auto simp: canon_datetime_def str_replace_cell_def to_datetime_cell_def bindE_eq_Inr
      split: sum.splits option.splits)

lemma to_datetime_cell_Str: "to_datetime_cell f (Str s) = Inr v \<Longrightarrow> \<exists>t. strptime f s = Inr t"
  by (auto simp: to_datetime_cell_def split: sum.splits)

lemma not_Inr_Inl: "(\<And>y. x \<noteq> Inr y) \<Longrightarrow> \<exists>e. x = Inl e"
  by (cases x) auto

lemma rhe_lower: "q - 1 / 2 \<le> of_int (round_half_even q)"
  unfolding round_half_even_def Let_def by (auto; linarith)

lemma rhe_upper: "q \<le> of_int N \<Longrightarrow> round_half_even q \<le> N"
proof -
  assume a: "q \<le> of_int N"
  then have f: "\<lfloor>q\<rfloor> \<le> N" by (simp add: floor_le_iff) 
  show ?thesis
  proof (cases "q - of_int \<lfloor>q\<rfloor> < 1 / 2")
    case True
    with f show ?thesis by (simp add: round_half_even_def Let_def)
  next
    case False
    then have "of_int \<lfloor>q\<rfloor> < q" by linarith
    with a have "of_int \<lfloor>q\<rfloor> < (of_int N :: real)" by linarith
    then have "\<lfloor>q\<rfloor> < N" by simp
    then show ?thesis by (simp add: round_half_even_def Let_def)
  qed
qed

lemma rhe_of_int: "round_half_even (of_int z) = z"
  by (simp add: round_half_even_def Let_def)

lemma ilog2_bounds:
  assumes "1 \<le> x"
  shows "0 \<le> ilog2 x" and "2 ^ nat (ilog2 x) \<le> x" and "x < 2 ^ (nat (ilog2 x) + 1)"
proof -
  let ?n = "nat \<lfloor>x\<rfloor>"
  from assms have n: "0 < ?n" by simp
  from floorlog_bounds [OF n, of 2] have b: "2 ^ (floorlog 2 ?n - 1) \<le> ?n" "?n < 2 ^ floorlog 2 ?n"
    by simp_all
  from n have p: "0 < floorlog 2 ?n" by (simp add: floorlog_eq_zero_iff zero_less_iff_neq_zero)
  have i: "ilog2 x = int (floorlog 2 ?n) - 1" using assms by (simp add: ilog2_def)
  with p show "0 \<le> ilog2 x" by simp
  have k: "nat (ilog2 x) = floorlog 2 ?n - 1" using i p by simp
  have "real (2 ^ (floorlog 2 ?n - 1)) \<le> real ?n" using b(1) by (rule of_nat_mono)
  also have "\<dots> \<le> x" using assms by simp
  finally show "2 ^ nat (ilog2 x) \<le> x" by (simp add: k)
  have "Suc ?n \<le> 2 ^ floorlog 2 ?n" using b(2) by (rule Suc_leI)
  then have "real (Suc ?n) \<le> real (2 ^ floorlog 2 ?n)" by (rule of_nat_mono)
  moreover have "x < real (Suc ?n)" using assms by simp linarith
  ultimately have "x < 2 ^ floorlog 2 ?n" by simp
  then show "x < 2 ^ (nat (ilog2 x) + 1)" using k p by simp
qed

lemma to_double_mid:
  assumes x1: "1 \<le> x" and x2: "x < 2 ^ 52"
  shows "\<exists>y. to_double x = Fin y \<and> x - x / 2 ^ 53 \<le> y \<and>
           (\<forall>N::int. x \<le> of_int N \<longrightarrow> y \<le> of_int N) \<and>
           (x \<in> \<int> \<longrightarrow> y = x)"
proof -
  define k where "k = nat (ilog2 x)"
  note ib = ilog2_bounds [OF x1, folded k_def]
  have ik: "ilog2 x = int k" using ib(1) by (simp add: k_def)
  have "(2::real) ^ k < 2 ^ 52" using ib(2) x2 by linarith
  with power_less_imp_less_exp [of "2::real" k 52] have k52: "k < 52" by simp
  define j where "j = 52 - k"
  have j: "0 < j" "k + j = 52" using k52 by (simp_all add: j_def)
  have e: "max (ilog2 x - 52) (- 1074) = - int j" using j by (simp add: ik)
  have p: "pow2 (- int j) = 1 / 2 ^ j" using j by (simp add: pow2_def)
  define m where "m = round_half_even (x * 2 ^ j)"
  define y where "y = of_int m / (2::real) ^ j"
  have ax: "\<bar>x\<bar> = x" using x1 by simp
  have mu: "m \<le> N * 2 ^ j" if "x \<le> of_int N" for N
  proof -
    from that have "x * 2 ^ j \<le> of_int (N * 2 ^ j)" by simp
    then show ?thesis unfolding m_def by (rule rhe_upper)
  qed
  have yu: "y \<le> of_int N" if "x \<le> of_int N" for N
  proof -
    from mu [OF that] have "(of_int m :: real) \<le> of_int (N * 2 ^ j)" by (simp only: of_int_le_iff)
    then show ?thesis by (simp add: y_def field_simps)
  qed
  have "x < 2 ^ 52" by (rule x2)
  then have "x \<le> of_int (2 ^ 52)" by simp
  from yu [OF this] have ylt: "y < 2 ^ 1024" by (simp add: power_strict_increasing [of 52 1024 "2::real", simplified] less_imp_le order.strict_trans1)
  have td: "to_double x = Fin y"
    using x1 ylt by (simp add: to_double_def Let_def e p ax y_def m_def)
  have ml: "x * 2 ^ j - 1 / 2 \<le> of_int m" unfolding m_def by (rule rhe_lower)
  define Q where "Q = x * 2 ^ j"
  have "2 ^ k \<le> x" by (rule ib(2))
  then have "2 ^ k * 2 ^ j \<le> x * (2::real) ^ j" by (rule mult_right_mono) simp
  then have Q52: "2 ^ 52 \<le> Q" by (simp add: Q_def power_add [symmetric] j(2))
  have "Q - Q / 2 ^ 53 \<le> of_int m" using ml Q52 by (simp add: Q_def [symmetric])
  moreover have "(x - x / 2 ^ 53) * 2 ^ j = Q - Q / 2 ^ 53" by (simp add: Q_def algebra_simps)
  ultimately have "(x - x / 2 ^ 53) * 2 ^ j \<le> of_int m" by simp
  then have yl: "x - x / 2 ^ 53 \<le> y" by (simp add: y_def pos_le_divide_eq)
  have yi: "y = x" if "x \<in> \<int>"
  proof -
    from that obtain z where z: "x = of_int z" by (auto elim: Ints_cases)
    have "x * 2 ^ j = of_int (z * 2 ^ j)" by (simp add: z)
    then have "m = z * 2 ^ j" unfolding m_def by (simp only: rhe_of_int)
    then show ?thesis by (simp add: y_def z)
  qed
  from td yl yu yi show ?thesis by blast
qed

lemma buffer_eq: "buffer = Fin (5404319552844595 / 4503599627370496)"
  by (simp add: buffer_def to_double_def ilog2_def compute_floorlog round_half_even_def pow2_def)

lemma to_double_of_nat:
  assumes "L < 2 ^ 52"
  shows "to_double (real L) = Fin (real L)"
proof (cases "L = 0")
  case True
  then show ?thesis by (simp add: to_double_def)
next
  case False
  then have 1: "1 \<le> real L" by simp
  have "real L < real (2 ^ 52)" using assms by (simp only: of_nat_less_iff)
  then have 2: "real L < 2 ^ 52" by simp
  from to_double_mid [OF 1 2] show ?thesis by auto
qed

lemma ceil_buffer:
  assumes L: "L < 2 ^ 50"
  shows "math_ceil (fmul (to_double (real L)) buffer) = Inr \<lceil>real L * (12 / 10)\<rceil>"
proof (cases "L = 0")
  case True
  then show ?thesis by (simp add: to_double_def buffer_eq)
next
  case False
  define c :: real where "c = 5404319552844595 / 4503599627370496"
  define x where "x = real L * c"
  define n where "n = \<lceil>real L * (12 / 10)\<rceil>"
  have L1: "1 \<le> real L" using False by simp
  have "real L < real (2 ^ 50)" using L by (simp only: of_nat_less_iff)
  then have L2: "real L < 2 ^ 50" by simp
  have "L < 2 ^ 52" using L by (rule less_trans) simp
  then have tl: "to_double (real L) = Fin (real L)" by (rule to_double_of_nat)
  have x1: "1 \<le> x" using L1 by (simp add: x_def c_def)
  have x2: "x < 2 ^ 52" using L2 by (simp add: x_def c_def)
  from to_double_mid [OF x1 x2] obtain y where
    y: "to_double x = Fin y" and yl: "x - x / 2 ^ 53 \<le> y"
    and yu: "\<And>N::int. x \<le> of_int N \<Longrightarrow> y \<le> of_int N"
    by blast
  have "real L * (12 / 10) \<le> of_int n" unfolding n_def by (rule le_of_int_ceiling)
  then have "x \<le> of_int n" using L1 by (simp add: x_def c_def)
  then have up: "y \<le> of_int n" by (rule yu)
  have "of_int n - 1 < real L * (12 / 10)" unfolding n_def by linarith
  then have "real_of_int (5 * n - 5) < real_of_int (6 * int L)" by simp
  then have "5 * n - 5 < 6 * int L" by (simp only: of_int_less_iff)
  then have "5 * n - 4 \<le> 6 * int L" by simp
  then have "real_of_int (5 * n - 4) \<le> real_of_int (6 * int L)" by (simp only: of_int_le_iff)
  then have nl: "5 * real_of_int n - 4 \<le> 6 * real L" by simp
  have lo: "of_int n - 1 < y" using yl nl L2 by (simp add: x_def c_def)
  have cy: "\<lceil>y\<rceil> = n" using lo up by (rule ceiling_unique)
  have "math_ceil (fmul (to_double (real L)) buffer) = math_ceil (fmul (Fin (real L)) (Fin c))"
    by (simp only: tl buffer_eq c_def)
  also have "\<dots> = math_ceil (Fin y)" using y by (simp add: x_def)
  also have "\<dots> = Inr n" using cy by simp
  finally show ?thesis by (simp only: n_def)
qed

section \<open>Unfolding rules for evaluation\<close>

lemmas rx_defs = match_datetime_def match_date_def grp_def re_m_def re_d_def re_Y_def rx_d_def
  re_H_def re_M_def re_ws_def ws_chars_def
lemmas group_defs = group_val_def digits_val_def digit_val_def is_space_def ws_chars_def
lemmas civil_defs = civil_ns_def ymd2ord_def days_before_year_def days_before_month_def
  days_in_month_def is_leap_def ns_per_day_def ns_per_minute_def
lemmas float_defs = float_of_string_def float_strip_def float_ws_def to_lower_def
  is_digit_def parse_decimal_def parse_exponent_def digits_val_def digit_val_def pow10_def
  to_double_def ilog2_def compute_floorlog round_half_even_def pow2_def

section \<open>Whitespace in fields\<close>

text \<open>
  The no-break space is trimmed from a header and skipped by \<^verbatim>\<open>float\<close>; the separator
  0x1C is not skipped by \<^verbatim>\<open>float\<close>; the format's blank matches a no-break space.
\<close>

lemma strip_no_break_space: "strip (''latitude'' @ [CHR 0xA0]) = ''latitude''"
  by (simp add: strip_def is_space_def ws_chars_def)

lemma float_no_break_space: "float_of_string (CHR 0xA0 # ''1.5'') = Inr (Fin (3 / 2))"
  by (simp add: float_defs)

lemma float_next_line: "float_of_string (''1.5'' @ [CHR 0x85]) = Inr (Fin (3 / 2))"
  by (simp add: float_defs)

lemma float_separator: "float_of_string (CHR 0x1C # ''5'') = Inl ValueError"
  by (simp add: float_defs)

lemma strptime_no_break_space:
  "strptime DateTimeFmt (''01/15/2020'' @ CHR 0xA0 # ''23:59'') =
     Inr (Some (civil_ns 2020 1 15 23 59))"
  apply (simp add: rx_defs strptime_def nat_strings_def)
  apply (simp add: group_defs)
  apply (simp add: make_ts_def days_in_month_def is_leap_def)
  apply (simp add: civil_defs)
  apply (simp add: in_ns_range_def)
  done

section \<open>The 24:00 repair\<close>

lemma canon_datetime_Str_cases:
  assumes "canon_datetime (Str s) = Inr v"
  shows "\<exists>t. strptime DateTimeFmt (str_replace ''24:00'' ''00:00'' s) = Inr t \<and>
           v = Tstamp (if str_contains ''24:00'' s then map_option (\<lambda>u. u + ns_per_day) t else t)"
proof -
  from assms obtain c where
    c: "to_datetime_cell DateTimeFmt (Str (str_replace ''24:00'' ''00:00'' s)) = Inr c"
    and sh: "shift_cell (c, if str_contains ''24:00'' s then ns_per_day else 0) = Inr v"
    by (auto simp: canon_datetime_def str_replace_cell_def str_contains_cell_def bindE_eq_Inr)
  from c obtain t where t: "strptime DateTimeFmt (str_replace ''24:00'' ''00:00'' s) = Inr t"
    and ct: "c = Tstamp t"
    by (auto simp: to_datetime_cell_def split: sum.splits)
  from sh ct have "v = Tstamp (if str_contains ''24:00'' s then map_option (\<lambda>u. u + ns_per_day) t else t)"
    by (cases t) (auto simp: shift_cell_def Let_def split: if_splits)
  with t show ?thesis by blast
qed

text \<open>
  C1. When the normalizer returns, a row whose \<open>datetime\<close> cell is the string \<open>s\<close> has
  as its new \<open>datetime\<close> the timestamp parsed from \<open>s\<close> with every \<^verbatim>\<open>24:00\<close>
  replaced by \<^verbatim>\<open>00:00\<close>, one day (\<open>ns_per_day\<close>) later when \<open>s\<close> contains
  \<^verbatim>\<open>24:00\<close>; when \<open>s\<close> does not contain it, that is the parse of \<open>s\<close> itself, not
  shifted. (A string that parses to a missing value gives NaT either way.)
\<close>

theorem datetime_repair:
  assumes "transform_datetime_col df = Inr df'"
    and "i < length (rows df)"
    and "cell_of (rows df ! i) ''datetime'' = Str s"
  shows "\<exists>t. strptime DateTimeFmt (str_replace ''24:00'' ''00:00'' s) = Inr t \<and>
           (\<not> str_contains ''24:00'' s \<longrightarrow> strptime DateTimeFmt s = Inr t) \<and>
           cell_of (rows df' ! i) ''datetime'' =
             Tstamp (if str_contains ''24:00'' s then map_option (\<lambda>u. u + ns_per_day) t else t)"
proof -
  note tdc = transform_datetime_col_Inr [OF assms(1)]
  from assms(2) have r: "rows df ! i \<in> set (rows df)" by simp
  from tdc(4) [OF r] obtain v where v: "canon_datetime (Str s) = Inr v"
    by (auto simp: assms(3))
  from canon_datetime_Str_cases [OF v] obtain t where
    t: "strptime DateTimeFmt (str_replace ''24:00'' ''00:00'' s) = Inr t" and
    vt: "v = Tstamp (if str_contains ''24:00'' s then map_option (\<lambda>u. u + ns_per_day) t else t)"
    by blast
  have "cell_of (rows df' ! i) ''datetime'' = v"
    using assms(2) by (simp add: tdc(1) datetime_row_def cell_of_update assms(3) v the_Inr_def)
  moreover have "strptime DateTimeFmt s = Inr t" if "\<not> str_contains ''24:00'' s"
    using t that by (simp add: str_replace_absent)
  ultimately show ?thesis using t vt by blast
qed

lemma strptime_2020_01_15_0000:
  "strptime DateTimeFmt ''01/15/2020 00:00'' = Inr (Some (civil_ns 2020 1 15 0 0))"
  apply (simp add: rx_defs strptime_def nat_strings_def)
  apply (simp add: group_defs)
  apply (simp add: make_ts_def days_in_month_def is_leap_def)
  apply (simp add: civil_defs)
  apply (simp add: in_ns_range_def)
  done

lemma strptime_2020_01_15_2359:
  "strptime DateTimeFmt ''01/15/2020 23:59'' = Inr (Some (civil_ns 2020 1 15 23 59))"
  apply (simp add: rx_defs strptime_def nat_strings_def)
  apply (simp add: group_defs)
  apply (simp add: make_ts_def days_in_month_def is_leap_def)
  apply (simp add: civil_defs)
  apply (simp add: in_ns_range_def)
  done

lemma replace_2400: "str_replace ''24:00'' ''00:00'' ''01/15/2020 24:00'' = ''01/15/2020 00:00''"
  by (simp add: str_replace.simps)

lemma replace_2359: "str_replace ''24:00'' ''00:00'' ''01/15/2020 23:59'' = ''01/15/2020 23:59''"
  by (simp add: str_replace.simps)

lemma next_day_2020_01_15: "civil_ns 2020 1 15 0 0 + ns_per_day = civil_ns 2020 1 16 0 0"
  by (simp add: civil_defs)

lemma in_range_2020_01_16: "in_ns_range (civil_ns 2020 1 16 0 0)"
  by (simp add: civil_defs in_ns_range_def)

lemma in_range_2020_01_15: "in_ns_range (civil_ns 2020 1 15 23 59)"
  by (simp add: civil_defs in_ns_range_def)

lemmas one_cell_defs = one_cell_def transform_datetime_col_def get_col_def dtypes_of_def
  cell_of_def str_accessor_def isna_def is_str_def set_col_def str_replace_cell_def
  to_datetime_def to_datetime_cell_def str_contains_cell_def mul_timedelta_def shift_cell_def
  drop_cols_def
  labels_def

lemma strptime_2400_fails: "strptime DateTimeFmt ''01/15/2020 24:00'' = Inl ValueError"
  by (simp add: rx_defs strptime_def nat_strings_def)

lemma transform_2400:
  "transform_datetime_col (one_cell Object (Str ''01/15/2020 24:00'')) =
     Inr (one_cell Datetime64 (Tstamp (Some (civil_ns 2020 1 16 0 0))))"
  by (simp add: one_cell_defs replace_2400 strptime_2020_01_15_0000 next_day_2020_01_15
      in_range_2020_01_16 del: One_nat_def)

lemma transform_2359:
  "transform_datetime_col (one_cell Object (Str ''01/15/2020 23:59'')) =
     Inr (one_cell Datetime64 (Tstamp (Some (civil_ns 2020 1 15 23 59))))"
  by (simp add: one_cell_defs replace_2359 strptime_2020_01_15_2359 in_range_2020_01_15
      del: One_nat_def)

text \<open>
  The two examples of the specification: \<^verbatim>\<open>01/15/2020 24:00\<close> becomes 2020-01-16 00:00 and
  \<^verbatim>\<open>01/15/2020 23:59\<close> becomes 2020-01-15 23:59. The timestamps and the day are
  also given as counts of nanoseconds (since 1970-01-01 00:00).
\<close>

theorem datetime_repair_witness:
  "transform_datetime_col (one_cell Object (Str ''01/15/2020 24:00'')) =
     Inr (one_cell Datetime64 (Tstamp (Some (civil_ns 2020 1 16 0 0)))) \<and>
   (\<exists>t. strptime DateTimeFmt (str_replace ''24:00'' ''00:00'' ''01/15/2020 24:00'') = Inr t \<and>
      cell_of (rows (one_cell Datetime64 (Tstamp (Some (civil_ns 2020 1 16 0 0)))) ! 0) ''datetime'' =
        Tstamp (map_option (\<lambda>u. u + ns_per_day) t)) \<and>
   transform_datetime_col (one_cell Object (Str ''01/15/2020 23:59'')) =
     Inr (one_cell Datetime64 (Tstamp (Some (civil_ns 2020 1 15 23 59)))) \<and>
   (\<exists>t. strptime DateTimeFmt ''01/15/2020 23:59'' = Inr t \<and>
      cell_of (rows (one_cell Datetime64 (Tstamp (Some (civil_ns 2020 1 15 23 59)))) ! 0) ''datetime'' =
        Tstamp t) \<and>
   (civil_ns 2020 1 16 0 0 = 1579132800000000000 \<and>
    civil_ns 2020 1 15 23 59 = 1579132740000000000 \<and>
    civil_ns 2020 1 15 0 0 = 1579046400000000000 \<and>
    ns_per_day = 86400000000000)"
  (is "?a \<and> ?b \<and> ?c \<and> ?d \<and> ?n")
proof -
  have a: "0 < length (rows (one_cell Object (Str ''01/15/2020 24:00'')))"
    and b: "cell_of (rows (one_cell Object (Str ''01/15/2020 24:00'')) ! 0) ''datetime'' =
        Str ''01/15/2020 24:00''"
    and c: "str_contains ''24:00'' ''01/15/2020 24:00''"
    by (simp_all add: one_cell_def cell_of_def)
  have a': "0 < length (rows (one_cell Object (Str ''01/15/2020 23:59'')))"
    and b': "cell_of (rows (one_cell Object (Str ''01/15/2020 23:59'')) ! 0) ''datetime'' =
        Str ''01/15/2020 23:59''"
    and c': "\<not> str_contains ''24:00'' ''01/15/2020 23:59''"
    by (simp_all add: one_cell_def cell_of_def)
  from datetime_repair [OF transform_2400 a b] datetime_repair [OF transform_2359 a' b']
  have "?a \<and> ?b \<and> ?c \<and> ?d" using transform_2400 transform_2359 c c' by auto
  moreover have ?n by (simp add: civil_defs)
  ultimately show ?thesis by blast
qed

text \<open>
  When the normalizer returns, every cell of the \<open>datetime\<close> column was a string: a
  missing cell makes line 42 raise.
\<close>

lemma transform_datetime_col_str:
  assumes "transform_datetime_col df = Inr df'" and "r \<in> set (rows df)"
  shows "is_str (cell_of r ''datetime'')"
proof -
  from transform_datetime_col_Inr(4) [OF assms] obtain v
    where "canon_datetime (cell_of r ''datetime'') = Inr v" ..
  then show ?thesis
    by (cases "cell_of r ''datetime''")
      (auto simp: canon_datetime_def str_contains_cell_def is_str_def bindE_eq_Inr)
qed

lemma missing_datetime_raises:
  "transform_datetime_col
     \<lparr>columns = [(''datetime'', Object)],
      rows = [[(''datetime'', Str ''01/15/2020 23:59'')], [(''datetime'', Flt NaN)]]\<rparr> =
   Inl TypeError"
  by (simp add: one_cell_defs replace_2359 strptime_2020_01_15_2359 del: One_nat_def)

section \<open>Timestamps that do not parse\<close>

lemma clean_file_dates:
  assumes ok: "clean_file df0 = Inr df'" and r: "r \<in> set (rows df0)"
  shows "\<exists>v. canon_datetime (cell_of (strip_row r) ''datetime'') = Inr v"
    and "\<exists>v. to_datetime_cell DateFmt (cell_of (strip_row r) ''date posted'') = Inr v"
proof -
  from ok obtain df1 dp posted where
    t: "transform_datetime_col (rename_strip df0) = Inr df1" and
    g: "get_col df1 ''date posted'' = Inr dp" and
    p: "to_datetime DateFmt (snd dp) = Inr posted"
    unfolding clean_file_def Let_def bindE_eq_Inr by blast
  note tdc = transform_datetime_col_Inr [OF t]
  from r have s: "strip_row r \<in> set (rows (rename_strip df0))"
    by (simp add: rename_strip_rows)
  from tdc(4) [OF s] show "\<exists>v. canon_datetime (cell_of (strip_row r) ''datetime'') = Inr v" .
  from r have "cell_of (datetime_row (strip_row r)) ''date posted'' \<in> set (snd dp)"
    using get_col_Inr [OF g] by (simp add: tdc(1) rename_strip_rows)
  from mapE_Inr_all [OF p [unfolded to_datetime_def] this]
  show "\<exists>v. to_datetime_cell DateFmt (cell_of (strip_row r) ''date posted'') = Inr v"
    by (simp add: cell_of_datetime_row)
qed

lemma clean_file_bad_date:
  assumes r: "r \<in> set (rows df)"
    and bad: "(\<exists>s e. cell_of (strip_row r) ''datetime'' = Str s \<and>
                strptime DateTimeFmt (str_replace ''24:00'' ''00:00'' s) = Inl e) \<or>
              (\<exists>s e. cell_of (strip_row r) ''date posted'' = Str s \<and>
                strptime DateFmt s = Inl e)"
  shows "\<exists>e. clean_file df = Inl e"
proof (rule not_Inr_Inl)
  fix df'
  show "clean_file df \<noteq> Inr df'"
  proof
    assume ok: "clean_file df = Inr df'"
    from clean_file_dates [OF ok r] bad show False
      by (auto dest!: canon_datetime_Str to_datetime_cell_Str)
  qed
qed

text \<open>
  C3. If the \<open>datetime\<close> string of some row, after the rewrite of \<^verbatim>\<open>24:00\<close>, or its
  \<open>date posted\<close> string does not parse under its format (\<open>strptime\<close> raises), then the
  cleaning stage raises, so does the transform stage, and \<open>etl\<close> logs the error and
  leaves the database as it was: no row is loaded, and the row is not dropped in silence.
\<close>

theorem bad_timestamp_aborts:
  assumes "read_csv (file_name self) = Inr df"
    and "r \<in> set (rows df)"
    and "(\<exists>s e. cell_of (strip_row r) ''datetime'' = Str s \<and>
            strptime DateTimeFmt (str_replace ''24:00'' ''00:00'' s) = Inl e) \<or>
         (\<exists>s e. cell_of (strip_row r) ''date posted'' = Str s \<and> strptime DateFmt s = Inl e)"
  shows "(\<exists>e. clean_file df = Inl e) \<and>
         (\<exists>e. transform_csv df = Inl e \<and> etl read_csv accepts self db = (db, Some e))"
proof
  show "\<exists>e. clean_file df = Inl e" using assms(2,3) by (rule clean_file_bad_date)
  have "\<exists>e. transform_csv df = Inl e"
  proof (cases "sort_values df ''datetime''")
    case (Inl e)
    then show ?thesis by (simp add: transform_csv_def)
  next
    case (Inr sorted)
    from sort_values_Inr(1) [OF Inr] assms(2) have "r \<in> set (rows sorted)" by simp
    from clean_file_bad_date [OF this assms(3)] Inr show ?thesis
      by (simp add: transform_csv_def)
  qed
  then obtain e where e: "transform_csv df = Inl e" ..
  then have "etl read_csv accepts self db = (db, Some e)"
    by (simp add: etl_def extract_csv_def assms(1))
  with e show "\<exists>e. transform_csv df = Inl e \<and> etl read_csv accepts self db = (db, Some e)"
    by blast
qed

lemma strptime_13_40_2020: "strptime DateFmt ''13/40/2020'' = Inl ValueError"
  by (simp add: rx_defs strptime_def nat_strings_def)

text \<open>
  The example of the specification: a file whose one row has \<open>date posted\<close> \<^verbatim>\<open>13/40/2020\<close>.
\<close>

theorem bad_timestamp_aborts_witness:
  "strptime DateFmt ''13/40/2020'' = Inl ValueError \<and>
   (\<exists>e. clean_file bad_date_example = Inl e) \<and>
   (\<exists>e. transform_csv bad_date_example = Inl e \<and>
        etl (\<lambda>f. Inr bad_date_example) (\<lambda>t df. True)
          \<lparr>file_name = ''scrubbed.csv'', table_name = ''ufo''\<rparr> Map.empty = (Map.empty, Some e))"
proof -
  let ?r = "raw_row (Str ''01/01/2021 04:00'') (Str ''a'') (Str ''5'') (Str ''13/40/2020'')
     (Str ''1.5'') (Str ''-2.5'')"
  have 1: "(\<lambda>f. Inr bad_date_example) (file_name \<lparr>file_name = ''scrubbed.csv'', table_name = ''ufo''\<rparr>)
      = Inr bad_date_example" by simp
  have 2: "?r \<in> set (rows bad_date_example)" by (simp add: bad_date_example_def)
  have "cell_of (strip_row ?r) ''date posted'' = Str ''13/40/2020''"
    by (simp add: strip_row_def raw_row_def cell_of_def strip_def is_space_def ws_chars_def)
  with strptime_13_40_2020 have 3:
    "(\<exists>s e. cell_of (strip_row ?r) ''datetime'' = Str s \<and>
        strptime DateTimeFmt (str_replace ''24:00'' ''00:00'' s) = Inl e) \<or>
     (\<exists>s e. cell_of (strip_row ?r) ''date posted'' = Str s \<and> strptime DateFmt s = Inl e)"
    by blast
  from bad_timestamp_aborts [OF 1 2 3, where accepts = "\<lambda>t df. True" and db = Map.empty]
    strptime_13_40_2020
  show ?thesis by simp
qed

section \<open>Sorting happens before parsing\<close>

lemma sort_values_example:
  "sort_values sort_example ''datetime'' = Inr \<lparr>columns = raw_columns, rows =
     [raw_row (Str ''01/01/2021 04:00'') (Str ''c'') (Str ''5'') (Str ''01/20/2021'')
        (Str ''1.5'') (Str ''-2.5''),
      raw_row (Str ''01/01/2021 05:00'') (Str ''a'') (Str ''5'') (Str ''01/20/2021'')
        (Str ''1.5'') (Str ''-2.5''),
      raw_row (Str ''06/01/2020 12:00'') (Str ''b'') (Str ''5'') (Str ''01/20/2021'')
        (Str ''1.5'') (Str ''-2.5'')]\<rparr>"
  by (simp add: sort_values_def sort_example_def raw_columns_def raw_row_def dtypes_of_def
      cell_of_def is_str_def isna_def str_of_def)

lemma strptime_2021_01_01_0400:
  "strptime DateTimeFmt ''01/01/2021 04:00'' = Inr (Some (civil_ns 2021 1 1 4 0))"
  apply (simp add: rx_defs strptime_def nat_strings_def)
  apply (simp add: group_defs)
  apply (simp add: make_ts_def days_in_month_def is_leap_def)
  apply (simp add: civil_defs)
  apply (simp add: in_ns_range_def)
  done

lemma strptime_2021_01_01_0500:
  "strptime DateTimeFmt ''01/01/2021 05:00'' = Inr (Some (civil_ns 2021 1 1 5 0))"
  apply (simp add: rx_defs strptime_def nat_strings_def)
  apply (simp add: group_defs)
  apply (simp add: make_ts_def days_in_month_def is_leap_def)
  apply (simp add: civil_defs)
  apply (simp add: in_ns_range_def)
  done

lemma strptime_2020_06_01_1200:
  "strptime DateTimeFmt ''06/01/2020 12:00'' = Inr (Some (civil_ns 2020 6 1 12 0))"
  apply (simp add: rx_defs strptime_def nat_strings_def)
  apply (simp add: group_defs)
  apply (simp add: make_ts_def days_in_month_def is_leap_def)
  apply (simp add: civil_defs)
  apply (simp add: in_ns_range_def)
  done

lemma strptime_2021_01_20:
  "strptime DateFmt ''01/20/2021'' = Inr (Some (civil_ns 2021 1 20 0 0))"
  apply (simp add: rx_defs strptime_def nat_strings_def)
  apply (simp add: group_defs)
  apply (simp add: make_ts_def days_in_month_def is_leap_def)
  apply (simp add: civil_defs)
  apply (simp add: in_ns_range_def)
  done

lemma float_5: "float_of_string ''5'' = Inr (Fin 5)"
  by (simp add: float_defs)

lemma float_1_5: "float_of_string ''1.5'' = Inr (Fin (3 / 2))"
  by (simp add: float_defs)

lemma float_m2_5: "float_of_string ''-2.5'' = Inr (Fin (- (5 / 2)))"
  by (simp add: float_defs)

lemma replace_0400: "str_replace ''24:00'' ''00:00'' ''01/01/2021 04:00'' = ''01/01/2021 04:00''"
  by (simp add: str_replace.simps)

lemma replace_0500: "str_replace ''24:00'' ''00:00'' ''01/01/2021 05:00'' = ''01/01/2021 05:00''"
  by (simp add: str_replace.simps)

lemma replace_1200: "str_replace ''24:00'' ''00:00'' ''06/01/2020 12:00'' = ''06/01/2020 12:00''"
  by (simp add: str_replace.simps)

lemma in_range_examples:
  "in_ns_range (civil_ns 2021 1 1 4 0)" "in_ns_range (civil_ns 2021 1 1 5 0)"
  "in_ns_range (civil_ns 2020 6 1 12 0)"
  by (simp_all add: civil_defs in_ns_range_def)

lemmas clean_defs = clean_file_def transform_datetime_col_def cast_numeric_def astype_float_def
  filter_float_def get_col_def set_col_def drop_cols_def rename_strip_def dtypes_of_def labels_def
  cell_of_def str_accessor_def isna_def is_str_def is_flt_def is_tstamp_def str_replace_cell_def
  str_contains_cell_def to_datetime_cell_def to_datetime_def mul_timedelta_def shift_cell_def
  py_float_def is_float_def strip_def is_space_def ws_chars_def

lemma clean_file_sorted_example:
  "clean_file \<lparr>columns = raw_columns, rows =
     [raw_row (Str ''01/01/2021 04:00'') (Str ''c'') (Str ''5'') (Str ''01/20/2021'')
        (Str ''1.5'') (Str ''-2.5''),
      raw_row (Str ''01/01/2021 05:00'') (Str ''a'') (Str ''5'') (Str ''01/20/2021'')
        (Str ''1.5'') (Str ''-2.5''),
      raw_row (Str ''06/01/2020 12:00'') (Str ''b'') (Str ''5'') (Str ''01/20/2021'')
        (Str ''1.5'') (Str ''-2.5'')]\<rparr> =
   Inr \<lparr>columns = clean_columns, rows =
     [clean_row_of (civil_ns 2021 1 1 4 0) (Str ''c'') (Fin 5) (civil_ns 2021 1 20 0 0) (Fin (3 / 2)) (Fin (- (5 / 2))),
      clean_row_of (civil_ns 2021 1 1 5 0) (Str ''a'') (Fin 5) (civil_ns 2021 1 20 0 0) (Fin (3 / 2)) (Fin (- (5 / 2))),
      clean_row_of (civil_ns 2020 6 1 12 0) (Str ''b'') (Fin 5) (civil_ns 2021 1 20 0 0) (Fin (3 / 2)) (Fin (- (5 / 2)))]\<rparr>"
  by (simp add: clean_defs raw_columns_def raw_row_def clean_columns_def clean_row_of_def
      replace_0400 replace_0500 replace_1200 strptime_2021_01_01_0400 strptime_2021_01_01_0500
      strptime_2020_06_01_1200 strptime_2021_01_20 float_5 float_1_5 float_m2_5 in_range_examples
      del: One_nat_def)

text \<open>
  C2, at the three rows of the specification's example. \<open>_transform_csv\<close> sorts on the
  \<open>datetime\<close> column while it still holds the text of the file, so the rows come out in
  the order of the strings \<^verbatim>\<open>01/01/2021 04:00\<close>, \<^verbatim>\<open>01/01/2021 05:00\<close>,
  \<^verbatim>\<open>06/01/2020 12:00\<close>: the row of 2020-06-01 is last, although its timestamp is the
  earliest.
\<close>

theorem transform_csv_sorts_text:
  "transform_csv sort_example =
     Inr \<lparr>columns = clean_columns, rows =
       [clean_row_of (civil_ns 2021 1 1 4 0) (Str ''c'') (Fin 5) (civil_ns 2021 1 20 0 0)
          (Fin (3 / 2)) (Fin (- (5 / 2))),
        clean_row_of (civil_ns 2021 1 1 5 0) (Str ''a'') (Fin 5) (civil_ns 2021 1 20 0 0)
          (Fin (3 / 2)) (Fin (- (5 / 2))),
        clean_row_of (civil_ns 2020 6 1 12 0) (Str ''b'') (Fin 5) (civil_ns 2021 1 20 0 0)
          (Fin (3 / 2)) (Fin (- (5 / 2)))]\<rparr> \<and>
   civil_ns 2020 6 1 12 0 < civil_ns 2021 1 1 4 0"
proof
  show "transform_csv sort_example = Inr \<lparr>columns = clean_columns, rows =
       [clean_row_of (civil_ns 2021 1 1 4 0) (Str ''c'') (Fin 5) (civil_ns 2021 1 20 0 0)
          (Fin (3 / 2)) (Fin (- (5 / 2))),
        clean_row_of (civil_ns 2021 1 1 5 0) (Str ''a'') (Fin 5) (civil_ns 2021 1 20 0 0)
          (Fin (3 / 2)) (Fin (- (5 / 2))),
        clean_row_of (civil_ns 2020 6 1 12 0) (Str ''b'') (Fin 5) (civil_ns 2021 1 20 0 0)
          (Fin (3 / 2)) (Fin (- (5 / 2)))]\<rparr>"
    by (simp only: transform_csv_def sort_values_example bindE_Inr clean_file_sorted_example)
  show "civil_ns 2020 6 1 12 0 < civil_ns 2021 1 1 4 0"
    by (simp add: civil_defs)
qed

section \<open>Rows with fields that are no numbers\<close>

lemma float_north: "float_of_string ''north'' = Inl ValueError"
  by (simp add: float_defs)

lemma float_5_min: "float_of_string ''5 min'' = Inl ValueError"
  by (simp add: float_defs)

lemma clean_file_numeric_example:
  "clean_file numeric_example =
     Inr \<lparr>columns = clean_columns, rows =
       [clean_row_of (civil_ns 2020 6 1 12 0) (Str ''c'') (Fin 5) (civil_ns 2021 1 20 0 0)
          (Fin (3 / 2)) (Fin (- (5 / 2)))]\<rparr>"
  by (simp add: numeric_example_def clean_defs raw_columns_def raw_row_def clean_columns_def
      clean_row_of_def replace_0400 replace_0500 replace_1200 strptime_2021_01_01_0400
      strptime_2021_01_01_0500 strptime_2020_06_01_1200 strptime_2021_01_20 float_5 float_1_5
      float_m2_5 float_north float_5_min in_range_examples del: One_nat_def)

lemma all_object_raw_columns: "list_all (\<lambda>(l, t). t = Object) raw_columns"
  by (simp add: raw_columns_def)

text \<open>
  On a frame read as text, when the cleaning stage returns, its rows are the rows of the
  input, in their order, for which \<open>_is_float\<close> answers \<open>True\<close> on the duration, on the
  latitude and on the longitude (each made typed by \<open>clean_row\<close>); every other row is
  gone. The rows A, B and C of the specification's example are such a frame: A and B are
  dropped and C is kept.
\<close>

lemma clean_file_rows_filtered:
  assumes "list_all (\<lambda>(l, t). t = Object) (columns df)"
    and "clean_file df = Inr df'"
  shows "rows df' =
           map clean_row
             (filter (\<lambda>r. is_float (cell_of r ''duration (seconds)'') = Inr True \<and>
                           is_float (cell_of r ''latitude'') = Inr True \<and>
                           is_float (cell_of r ''longitude'') = Inr True)
                (map strip_row (rows df)))"
  using clean_file_Inr(1) [OF assms(2,1)]
  by (simp add: numeric_ok_def [abs_def] float_ok_def)

text \<open>
  The three lines of a numeric column on a frame that has no rows left: the selection
  has no columns, and the cast raises \<^verbatim>\<open>KeyError\<close>.
\<close>

lemma cast_numeric_no_rows:
  assumes "rows df = []" and "dtypes_of df c = [Object]"
  shows "cast_numeric df c = Inl KeyError"
proof -
  from assms have "get_col df c = Inr (Object, [])"
    by (simp add: get_col_def)
  then show ?thesis
    by (simp add: cast_numeric_def filter_float_def astype_float_def get_col_empty_frame)
qed

lemma clean_file_Inr_row:
  assumes ok: "clean_file df0 = Inr df'"
    and obj: "list_all (\<lambda>(l, t). t = Object) (columns df0)"
  shows "\<exists>r \<in> set (rows df0).
           is_float (cell_of (strip_row r) ''duration (seconds)'') = Inr True \<and>
           is_float (cell_of (strip_row r) ''latitude'') = Inr True"
proof -
  from ok obtain df1 dp posted df3 df4 where
    t: "transform_datetime_col (rename_strip df0) = Inr df1" and
    g: "get_col df1 ''date posted'' = Inr dp" and
    p: "to_datetime DateFmt (snd dp) = Inr posted" and
    n1: "cast_numeric (set_col df1 ''date posted'' Datetime64 posted) ''duration (seconds)'' = Inr df3" and
    n2: "cast_numeric df3 ''latitude'' = Inr df4" and
    n3: "cast_numeric df4 ''longitude'' = Inr df'"
    unfolding clean_file_def Let_def bindE_eq_Inr by blast
  note tdc = transform_datetime_col_Inr [OF t]
  have r1: "rows df1 = map datetime_row (map strip_row (rows df0))"
    using tdc(1) by (simp add: rename_strip_rows)
  have c1: "columns df1 = AList.update ''datetime'' Datetime64
      (drop_helpers (map (\<lambda>(l, t). (strip l, t)) (columns df0)))"
    using tdc(2) by (simp add: rename_strip_columns)
  have posted: "posted = map (\<lambda>r. the_Inr (Flt NaN) (to_datetime_cell DateFmt (cell_of r ''date posted''))) (rows df1)"
    using mapE_Inr_map [OF p [unfolded to_datetime_def], of "Flt NaN"] get_col_Inr [OF g] by simp
  let ?df2 = "set_col df1 ''date posted'' Datetime64 posted"
  have r2: "rows ?df2 = map posted_row (rows df1)"
    and c2: "columns ?df2 = AList.update ''date posted'' Datetime64 (columns df1)"
    by (simp_all add: posted set_col_map posted_row_def)
  have obj0: "t = Object" if "(l, t) \<in> set (drop_helpers (map (\<lambda>(l, t). (strip l, t)) (columns df0)))" for l t
    using that obj by (auto simp: drop_helpers_def list_all_iff)
  have o2: "\<forall>t. (''duration (seconds)'', t) \<in> set (columns ?df2) \<longrightarrow> t = Object"
    unfolding c2 c1 by (auto dest!: set_update_other dest: obj0)
  note k1 = cast_numeric_Inr [OF n1 o2]
  have o3: "\<forall>t. (''latitude'', t) \<in> set (columns df3) \<longrightarrow> t = Object"
    unfolding k1(2) c2 c1 by (auto dest!: set_update_other dest: obj0)
  note k2 = cast_numeric_Inr [OF n2 o3]
  have o4: "\<forall>t. (''longitude'', t) \<in> set (columns df4) \<longrightarrow> t = Object"
    unfolding k2(2) k1(2) c2 c1 by (auto dest!: set_update_other dest: obj0)
  note k3 = cast_numeric_Inr [OF n3 o4]
  from k3(3) have "filter (float_ok ''latitude'') (rows df3) \<noteq> []"
    by (simp add: k2(1))
  then obtain q where q: "q \<in> set (rows df3)" and ql: "float_ok ''latitude'' q"
    by (auto simp: filter_empty_conv)
  from q obtain r where r: "r \<in> set (rows df0)"
    and qr: "q = float_row ''duration (seconds)'' (posted_row (datetime_row (strip_row r)))"
    and rd: "float_ok ''duration (seconds)'' (posted_row (datetime_row (strip_row r)))"
    unfolding k1(1) r2 r1 by auto
  from rd have "is_float (cell_of (strip_row r) ''duration (seconds)'') = Inr True"
    by (simp add: float_ok_def cell_of_posted_row cell_of_datetime_row)
  moreover from ql have "is_float (cell_of (strip_row r) ''latitude'') = Inr True"
    by (simp add: qr float_ok_def cell_of_float_row cell_of_posted_row cell_of_datetime_row)
  ultimately show ?thesis using r by blast
qed

lemma sort_values_bad_duration:
  "sort_values bad_duration_example ''datetime'' = Inr bad_duration_example"
  by (simp add: sort_values_def bad_duration_example_def raw_columns_def raw_row_def dtypes_of_def
      cell_of_def is_str_def isna_def str_of_def)

lemma sort_values_two_bad:
  "sort_values two_bad_example ''datetime'' = Inr two_bad_example"
  by (simp add: sort_values_def two_bad_example_def raw_columns_def raw_row_def dtypes_of_def
      cell_of_def is_str_def isna_def str_of_def)

lemma clean_file_bad_duration: "clean_file bad_duration_example = Inl KeyError"
  by (simp add: bad_duration_example_def clean_defs raw_columns_def raw_row_def
      replace_0500 strptime_2021_01_01_0500 strptime_2021_01_20 float_1_5
      float_m2_5 float_5_min in_range_examples del: One_nat_def)

lemma clean_file_two_bad: "clean_file two_bad_example = Inl KeyError"
  by (simp add: two_bad_example_def clean_defs raw_columns_def raw_row_def
      replace_0400 replace_0500 strptime_2021_01_01_0400 strptime_2021_01_01_0500
      strptime_2021_01_20 float_5 float_1_5
      float_m2_5 float_5_min float_north in_range_examples del: One_nat_def)

text \<open>
  C4. The rows with a field that is no number are not always dropped. When no row of
  the file has both a duration and a latitude that \<open>_is_float\<close> accepts, the filters
  leave a frame with no rows before the last numeric column is reached; the selection on
  that empty column then has no columns at all, the cast that follows cannot find its
  column, and the cleaning stage raises. The transform stage raises with it, and \<open>etl\<close>
  logs the error and loads nothing: the run is aborted instead of carrying on with the
  rows that are left (none).
\<close>

theorem numeric_filter_aborts:
  assumes "read_csv (file_name self) = Inr df"
    and "list_all (\<lambda>(l, t). t = Object) (columns df)"
    and "\<forall>r \<in> set (rows df).
           \<not> (is_float (cell_of (strip_row r) ''duration (seconds)'') = Inr True \<and>
              is_float (cell_of (strip_row r) ''latitude'') = Inr True)"
  shows "(\<exists>e. clean_file df = Inl e) \<and>
         (\<exists>e. transform_csv df = Inl e \<and> etl read_csv accepts self db = (db, Some e))"
proof
  have no: "clean_file d \<noteq> Inr d'" if "set (rows d) = set (rows df)" and "columns d = columns df"
    for d d'
  proof
    assume "clean_file d = Inr d'"
    from clean_file_Inr_row [OF this] assms(2) that(2)
    have "\<exists>r \<in> set (rows d).
           is_float (cell_of (strip_row r) ''duration (seconds)'') = Inr True \<and>
           is_float (cell_of (strip_row r) ''latitude'') = Inr True" by simp
    with assms(3) that(1) show False by blast
  qed
  from no [of df] show "\<exists>e. clean_file df = Inl e"
    by (cases "clean_file df") auto
  have "\<exists>e. transform_csv df = Inl e"
  proof (cases "sort_values df ''datetime''")
    case (Inl e)
    then show ?thesis by (simp add: transform_csv_def)
  next
    case (Inr sorted)
    from no [OF sort_values_Inr [OF Inr]] Inr show ?thesis
      by (cases "clean_file sorted") (auto simp: transform_csv_def)
  qed
  then obtain e where e: "transform_csv df = Inl e" ..
  then have "etl read_csv accepts self db = (db, Some e)"
    by (simp add: etl_def extract_csv_def assms(1))
  with e show "\<exists>e. transform_csv df = Inl e \<and> etl read_csv accepts self db = (db, Some e)"
    by blast
qed

text \<open>
  A file whose only row has the duration \<^verbatim>\<open>5 min\<close>, and a file of two rows, one with
  the duration \<^verbatim>\<open>5 min\<close> and one with the latitude \<^verbatim>\<open>north\<close>: the stage raises
  \<^verbatim>\<open>KeyError\<close> and nothing is loaded.
\<close>

theorem numeric_filter_aborts_witness:
  "clean_file bad_duration_example = Inl KeyError \<and>
   transform_csv bad_duration_example = Inl KeyError \<and>
   etl (\<lambda>f. Inr bad_duration_example) (\<lambda>t df. True)
     \<lparr>file_name = ''scrubbed.csv'', table_name = ''ufo''\<rparr> Map.empty = (Map.empty, Some KeyError) \<and>
   clean_file two_bad_example = Inl KeyError \<and>
   transform_csv two_bad_example = Inl KeyError \<and>
   etl (\<lambda>f. Inr two_bad_example) (\<lambda>t df. True)
     \<lparr>file_name = ''scrubbed.csv'', table_name = ''ufo''\<rparr> Map.empty = (Map.empty, Some KeyError)"
proof -
  have 1: "(\<lambda>f. Inr bad_duration_example)
      (file_name \<lparr>file_name = ''scrubbed.csv'', table_name = ''ufo''\<rparr>) = Inr bad_duration_example"
    by simp
  have 2: "list_all (\<lambda>(l, t). t = Object) (columns bad_duration_example)"
    by (simp add: bad_duration_example_def all_object_raw_columns)
  have 3: "\<forall>r \<in> set (rows bad_duration_example).
           \<not> (is_float (cell_of (strip_row r) ''duration (seconds)'') = Inr True \<and>
              is_float (cell_of (strip_row r) ''latitude'') = Inr True)"
    by (simp add: bad_duration_example_def raw_row_def strip_row_def cell_of_def strip_def
        is_space_def ws_chars_def is_float_def py_float_def float_5_min)
  have t1: "transform_csv bad_duration_example = Inl KeyError"
    by (simp only: transform_csv_def sort_values_bad_duration bindE_Inr clean_file_bad_duration)
  have b1: "(\<lambda>f. Inr two_bad_example)
      (file_name \<lparr>file_name = ''scrubbed.csv'', table_name = ''ufo''\<rparr>) = Inr two_bad_example"
    by simp
  have b2: "list_all (\<lambda>(l, t). t = Object) (columns two_bad_example)"
    by (simp add: two_bad_example_def all_object_raw_columns)
  have b3: "\<forall>r \<in> set (rows two_bad_example).
           \<not> (is_float (cell_of (strip_row r) ''duration (seconds)'') = Inr True \<and>
              is_float (cell_of (strip_row r) ''latitude'') = Inr True)"
    by (simp add: two_bad_example_def raw_row_def strip_row_def cell_of_def strip_def
        is_space_def ws_chars_def is_float_def py_float_def float_5_min float_north)
  have t2: "transform_csv two_bad_example = Inl KeyError"
    by (simp only: transform_csv_def sort_values_two_bad bindE_Inr clean_file_two_bad)
  from numeric_filter_aborts [OF 1 2 3, where accepts = "\<lambda>t df. True" and db = Map.empty]
    numeric_filter_aborts [OF b1 b2 b3, where accepts = "\<lambda>t df. True" and db = Map.empty]
  show ?thesis using t1 t2 clean_file_bad_duration clean_file_two_bad by simp
qed

section \<open>What the cleaning stage does to the fields of a row it keeps\<close>

lemma cell_of_clean_row_float:
  "c \<in> set [''duration (seconds)'', ''latitude'', ''longitude''] \<Longrightarrow>
     cell_of (clean_row r) c = Flt (the_Inr NaN (py_float (cell_of r c)))"
  by (auto simp: clean_row_def float_row_def cell_of_update cell_of_posted_row
      cell_of_datetime_row)

lemma cell_of_clean_row_text:
  "c \<notin> set [''datetime'', ''date posted'', ''duration (seconds)'', ''latitude'', ''longitude'',
       ''datetime_replaced'', ''datetime_casted''] \<Longrightarrow>
     cell_of (clean_row r) c = cell_of r c"
  by (simp add: clean_row_def cell_of_float_row cell_of_posted_row cell_of_datetime_row)

lemma float_m5: "float_of_string ''-5'' = Inr (Fin (- 5))"
  by (simp add: float_defs)

lemma float_inf: "float_of_string ''inf'' = Inr PosInf"
  by (simp add: float_defs)

lemma float_minf: "float_of_string ''-inf'' = Inr NegInf"
  by (simp add: float_defs)

lemma float_nan: "float_of_string ''nan'' = Inr NaN"
  by (simp add: float_defs)

lemma clean_file_nonfinite_example:
  "clean_file nonfinite_example =
     Inr \<lparr>columns = clean_columns, rows =
       [clean_row_of (civil_ns 2020 6 1 12 0) (Str ''d'') (Fin (- 5)) (civil_ns 2021 1 20 0 0)
          PosInf NaN]\<rparr>"
  by (simp add: nonfinite_example_def clean_defs raw_columns_def raw_row_def clean_columns_def
      clean_row_of_def replace_1200 strptime_2020_06_01_1200 strptime_2021_01_20 float_m5
      float_inf in_range_examples del: One_nat_def)

section \<open>The duration of a retained record\<close>

text \<open>
  C8, as the code has it. In every record the cleaning stage keeps, the duration is the
  float that \<^verbatim>\<open>float\<close> returns for the field of the input; nothing checks its sign,
  or that it is finite.
\<close>

theorem duration_is_float:
  assumes "list_all (\<lambda>(l, t). t = Object) (columns df)"
    and "clean_file df = Inr df'"
  shows "list_all2
           (\<lambda>r r'. \<exists>x. py_float (cell_of r ''duration (seconds)'') = Inr x \<and>
                         cell_of r' ''duration (seconds)'' = Flt x)
           (filter numeric_ok (map strip_row (rows df))) (rows df')"
proof -
  have "\<exists>x. py_float (cell_of r ''duration (seconds)'') = Inr x \<and>
          cell_of (clean_row r) ''duration (seconds)'' = Flt x"
    if "r \<in> set (filter numeric_ok (map strip_row (rows df)))" for r
  proof -
    from that have "is_float (cell_of r ''duration (seconds)'') = Inr True"
      by (simp add: numeric_ok_def float_ok_def)
    then obtain x where "py_float (cell_of r ''duration (seconds)'') = Inr x"
      by (auto simp: is_float_True_iff)
    then show ?thesis by (simp add: cell_of_clean_row_float the_Inr_def)
  qed
  then show ?thesis
    by (simp add: clean_file_Inr(1) [OF assms(2,1)] list_all2_map2 list_all2_same)
qed

theorem duration_is_float_witness:
  "list_all (\<lambda>(l, t). t = Object) (columns nonfinite_example) \<and>
   clean_file nonfinite_example =
     Inr \<lparr>columns = clean_columns, rows =
       [clean_row_of (civil_ns 2020 6 1 12 0) (Str ''d'') (Fin (- 5)) (civil_ns 2021 1 20 0 0)
          PosInf NaN]\<rparr> \<and>
   list_all2
     (\<lambda>r r'. \<exists>x. py_float (cell_of r ''duration (seconds)'') = Inr x \<and>
                   cell_of r' ''duration (seconds)'' = Flt x)
     (filter numeric_ok (map strip_row (rows nonfinite_example)))
     [clean_row_of (civil_ns 2020 6 1 12 0) (Str ''d'') (Fin (- 5)) (civil_ns 2021 1 20 0 0)
        PosInf NaN]"
proof -
  have o: "list_all (\<lambda>(l, t). t = Object) (columns nonfinite_example)"
    by (simp add: nonfinite_example_def all_object_raw_columns)
  from duration_is_float [OF o clean_file_nonfinite_example]
  show ?thesis using o clean_file_nonfinite_example by simp
qed

text \<open>
  A duration need not be non-negative: the record with the duration field \<^verbatim>\<open>-5\<close> is kept, with
  the duration \<open>-5\<close>.
\<close>

theorem duration_negative_counterexample:
  "clean_file nonfinite_example =
     Inr \<lparr>columns = clean_columns, rows =
       [clean_row_of (civil_ns 2020 6 1 12 0) (Str ''d'') (Fin (- 5)) (civil_ns 2021 1 20 0 0)
          PosInf NaN]\<rparr> \<and>
   cell_of (clean_row_of (civil_ns 2020 6 1 12 0) (Str ''d'') (Fin (- 5)) (civil_ns 2021 1 20 0 0)
          PosInf NaN) ''duration (seconds)'' = Flt (Fin (- 5)) \<and>
   (- 5 :: real) < 0"
  by (simp add: clean_file_nonfinite_example clean_row_of_def cell_of_def)

section \<open>Values that float() accepts and that are no finite numbers\<close>

lemma clean_file_nonfinite_clean: "clean_file nonfinite_example = Inr nonfinite_clean"
  by (simp only: clean_file_nonfinite_example nonfinite_clean_def)

lemma is_float_nonfinite:
  "c \<in> set [Flt NaN, Str ''nan'', Str ''inf'', Str ''-inf''] \<Longrightarrow>
     py_float c \<in> set [Inr NaN, Inr PosInf, Inr NegInf]"
  by (auto simp: py_float_def float_nan float_inf float_minf)

text \<open>
  C9. \<open>_is_float\<close> answers \<open>True\<close> on every float, so on the missing value NaN, and on
  the strings \<^verbatim>\<open>nan\<close>, \<^verbatim>\<open>inf\<close> and \<^verbatim>\<open>-inf\<close>. When the cleaning stage returns, a
  row with such a cell in a numeric column \<open>c\<close>, whose three numeric fields all pass
  \<open>_is_float\<close>, is in the output, and its field \<open>c\<close> is there NaN or an infinity.
\<close>

theorem nonfinite_retained:
  assumes "list_all (\<lambda>(l, t). t = Object) (columns df)"
    and "clean_file df = Inr df'"
    and "r \<in> set (rows df)"
    and "numeric_ok (strip_row r)"
    and "c \<in> set [''duration (seconds)'', ''latitude'', ''longitude'']"
    and "cell_of (strip_row r) c \<in> set [Flt NaN, Str ''nan'', Str ''inf'', Str ''-inf'']"
  shows "is_float (Flt x) = Inr True \<and>
         is_float (Str ''nan'') = Inr True \<and> is_float (Str ''inf'') = Inr True \<and>
         is_float (Str ''-inf'') = Inr True \<and>
         is_float (cell_of (strip_row r) c) = Inr True \<and>
         clean_row (strip_row r) \<in> set (rows df') \<and>
         cell_of (clean_row (strip_row r)) c \<in> set [Flt NaN, Flt PosInf, Flt NegInf]"
proof -
  have 1: "is_float (Flt x) = Inr True" "is_float (Str ''nan'') = Inr True"
    "is_float (Str ''inf'') = Inr True" "is_float (Str ''-inf'') = Inr True"
    by (simp_all add: is_float_def py_float_def float_nan float_inf float_minf)
  from is_float_nonfinite [OF assms(6)]
  have 2: "py_float (cell_of (strip_row r) c) \<in> set [Inr NaN, Inr PosInf, Inr NegInf]" .
  then have 3: "is_float (cell_of (strip_row r) c) = Inr True"
    by (auto simp: is_float_def)
  have 4: "clean_row (strip_row r) \<in> set (rows df')"
    using assms(3,4) by (simp add: clean_file_Inr(1) [OF assms(2,1)])
  have 5: "cell_of (clean_row (strip_row r)) c \<in> set [Flt NaN, Flt PosInf, Flt NegInf]"
    using 2 by (auto simp: cell_of_clean_row_float [OF assms(5)] the_Inr_def)
  from 1 3 4 5 show ?thesis by simp
qed

theorem nonfinite_retained_witness:
  "list_all (\<lambda>(l, t). t = Object) (columns nonfinite_example) \<and>
   clean_file nonfinite_example = Inr nonfinite_clean \<and>
   cell_of (strip_row (raw_row (Str ''06/01/2020 12:00'') (Str ''d'') (Str ''-5'')
     (Str ''01/20/2021'') (Str ''inf'') (Flt NaN))) ''longitude'' = Flt NaN \<and>
   clean_row (strip_row (raw_row (Str ''06/01/2020 12:00'') (Str ''d'') (Str ''-5'')
     (Str ''01/20/2021'') (Str ''inf'') (Flt NaN))) \<in> set (rows nonfinite_clean) \<and>
   cell_of (clean_row (strip_row (raw_row (Str ''06/01/2020 12:00'') (Str ''d'') (Str ''-5'')
     (Str ''01/20/2021'') (Str ''inf'') (Flt NaN)))) ''longitude''
     \<in> set [Flt NaN, Flt PosInf, Flt NegInf]"
proof -
  let ?r = "raw_row (Str ''06/01/2020 12:00'') (Str ''d'') (Str ''-5'')
     (Str ''01/20/2021'') (Str ''inf'') (Flt NaN)"
  have o: "list_all (\<lambda>(l, t). t = Object) (columns nonfinite_example)"
    by (simp add: nonfinite_example_def all_object_raw_columns)
  have r: "?r \<in> set (rows nonfinite_example)" by (simp add: nonfinite_example_def)
  have s: "strip_row ?r = ?r"
    by (simp add: strip_row_def raw_row_def strip_def is_space_def ws_chars_def)
  have n: "numeric_ok (strip_row ?r)"
    unfolding s
    by (simp add: numeric_ok_def float_ok_def is_float_def py_float_def raw_row_def cell_of_def
        float_m5 float_inf)
  have c: "''longitude'' \<in> set [''duration (seconds)'', ''latitude'', ''longitude'']" by simp
  have v: "cell_of (strip_row ?r) ''longitude'' = Flt NaN"
    unfolding s by (simp add: raw_row_def cell_of_def)
  have v': "cell_of (strip_row ?r) ''longitude'' \<in> set [Flt NaN, Str ''nan'', Str ''inf'', Str ''-inf'']"
    unfolding v by simp
  from nonfinite_retained [OF o clean_file_nonfinite_clean r n c v']
  show ?thesis using o clean_file_nonfinite_clean v by blast
qed

section \<open>Text fields and columns\<close>

lemma clean_file_helper_example:
  "clean_file helper_example =
     Inr \<lparr>columns = clean_columns, rows =
       [clean_row_of (civil_ns 2020 6 1 12 0) (Str ''d'') (Fin 5) (civil_ns 2021 1 20 0 0)
          (Fin (3 / 2)) (Fin (- (5 / 2)))]\<rparr>"
  by (simp add: helper_example_def clean_defs raw_columns_def raw_row_def clean_columns_def
      clean_row_of_def replace_1200 strptime_2020_06_01_1200 strptime_2021_01_20 float_5
      float_1_5 float_m2_5 in_range_examples del: One_nat_def)

text \<open>
  C10, as the code has it. When the cleaning stage returns on a frame read as text, the
  six free-text fields of every row it keeps are as they were in the input, and the
  columns of the output are the columns of the input with their names trimmed, without
  any column named \<open>datetime_replaced\<close> or \<open>datetime_casted\<close>: the stage uses these two
  names for its helper columns and drops them, whether it made them or found them.
\<close>

theorem text_fields_kept:
  assumes "list_all (\<lambda>(l, t). t = Object) (columns df)"
    and "clean_file df = Inr df'"
  shows "list_all2
           (\<lambda>r r'. list_all (\<lambda>c. cell_of r' c = cell_of r c)
              [''city'', ''state'', ''country'', ''shape'', ''duration (hours/min)'', ''comments''])
           (filter numeric_ok (map strip_row (rows df))) (rows df') \<and>
         labels df' =
           filter (\<lambda>l. l \<notin> set [''datetime_replaced'', ''datetime_casted''])
             (map strip (labels df))"
  by (simp add: clean_file_Inr(1,3) [OF assms(2,1)] list_all2_map2 list_all2_same
      cell_of_clean_row_text)

theorem text_fields_kept_witness:
  "list_all (\<lambda>(l, t). t = Object) (columns numeric_example) \<and>
   clean_file numeric_example =
     Inr \<lparr>columns = clean_columns, rows =
       [clean_row_of (civil_ns 2020 6 1 12 0) (Str ''c'') (Fin 5) (civil_ns 2021 1 20 0 0)
          (Fin (3 / 2)) (Fin (- (5 / 2)))]\<rparr> \<and>
   labels \<lparr>columns = clean_columns, rows =
       [clean_row_of (civil_ns 2020 6 1 12 0) (Str ''c'') (Fin 5) (civil_ns 2021 1 20 0 0)
          (Fin (3 / 2)) (Fin (- (5 / 2)))]\<rparr> =
     filter (\<lambda>l. l \<notin> set [''datetime_replaced'', ''datetime_casted''])
       (map strip (labels numeric_example))"
proof -
  have o: "list_all (\<lambda>(l, t). t = Object) (columns numeric_example)"
    by (simp add: numeric_example_def all_object_raw_columns)
  from text_fields_kept [OF o clean_file_numeric_example]
  show ?thesis using o clean_file_numeric_example by simp
qed

text \<open>
  A file that has a column \<open>datetime_casted\<close> of its own: the output has lost it, so
  its columns are not those of the input.
\<close>

theorem input_column_lost_counterexample:
  "clean_file helper_example =
     Inr \<lparr>columns = clean_columns, rows =
       [clean_row_of (civil_ns 2020 6 1 12 0) (Str ''d'') (Fin 5) (civil_ns 2021 1 20 0 0)
          (Fin (3 / 2)) (Fin (- (5 / 2)))]\<rparr> \<and>
   map strip (labels helper_example) =
     [''datetime'', ''city'', ''duration (seconds)'', ''date posted'', ''latitude'',
      ''longitude'', ''datetime_casted''] \<and>
   labels \<lparr>columns = clean_columns, rows =
       [clean_row_of (civil_ns 2020 6 1 12 0) (Str ''d'') (Fin 5) (civil_ns 2021 1 20 0 0)
          (Fin (3 / 2)) (Fin (- (5 / 2)))]\<rparr> =
     [''datetime'', ''city'', ''duration (seconds)'', ''date posted'', ''latitude'',
      ''longitude'']"
proof (intro conjI)
  show "clean_file helper_example =
     Inr \<lparr>columns = clean_columns, rows =
       [clean_row_of (civil_ns 2020 6 1 12 0) (Str ''d'') (Fin 5) (civil_ns 2021 1 20 0 0)
          (Fin (3 / 2)) (Fin (- (5 / 2)))]\<rparr>"
    by (rule clean_file_helper_example)
  show "map strip (labels helper_example) =
     [''datetime'', ''city'', ''duration (seconds)'', ''date posted'', ''latitude'',
      ''longitude'', ''datetime_casted'']"
    by (simp add: helper_example_def labels_def raw_columns_def strip_def is_space_def
        ws_chars_def)
  show "labels \<lparr>columns = clean_columns, rows =
       [clean_row_of (civil_ns 2020 6 1 12 0) (Str ''d'') (Fin 5) (civil_ns 2021 1 20 0 0)
          (Fin (3 / 2)) (Fin (- (5 / 2)))]\<rparr> =
     [''datetime'', ''city'', ''duration (seconds)'', ''date posted'', ''latitude'',
      ''longitude'']"
    by (simp add: labels_def clean_columns_def)
qed

section \<open>The width of a text column\<close>

lemma set_str_lens: "set (str_lens cells) = {length s |s. Str s \<in> set cells}"
proof (induction cells)
  case Nil
  then show ?case by (simp add: str_lens_def)
next
  case (Cons c cells)
  then show ?case
    by (cases c) (auto simp: str_lens_def str_len_cell_def)
qed

lemma max_len_float_Str:
  assumes s0: "Str s0 \<in> set cells"
    and mx: "\<forall>s. Str s \<in> set cells \<longrightarrow> length s \<le> length s0"
  shows "max_len_float (map str_len_cell cells) = to_double (real (length s0))"
proof -
  from s0 have "length s0 \<in> set (str_lens cells)" by (auto simp: set_str_lens)
  then obtain n ns where ns: "str_lens cells = n # ns" by (cases "str_lens cells") auto
  have "Max (set (str_lens cells)) = length s0"
  proof (rule Max_eqI)
    show "finite (set (str_lens cells))" by simp
    show "y \<le> length s0" if "y \<in> set (str_lens cells)" for y
      using that mx by (auto simp: set_str_lens)
    show "length s0 \<in> set (str_lens cells)" by fact
  qed
  then have "fold max ns n = length s0" by (simp only: ns Max.set_eq_fold)
  then show ?thesis
    using ns by (simp add: max_len_float_def str_lens_def)
qed

lemma str_accessor_Str:
  "Str s0 \<in> set cells \<Longrightarrow> str_accessor (Object, cells) = Inr cells"
proof -
  assume "Str s0 \<in> set cells"
  then have "Str s0 \<in> set (filter (\<lambda>c. \<not> isna c) cells)" by (simp add: isna_def)
  then have "list_ex is_str (filter (\<lambda>c. \<not> isna c) cells)"
    unfolding list_ex_iff by (rule bexI [rotated]) (simp add: is_str_def)
  then show ?thesis by (simp add: str_accessor_def Let_def)
qed

lemma calc_max_length_text:
  assumes "get_col df col = Inr (Object, cells)"
    and "Str s0 \<in> set cells"
    and "\<forall>s. Str s \<in> set cells \<longrightarrow> length s \<le> length s0"
    and "length s0 < 2 ^ 50"
  shows "calc_max_length df col = Inr \<lceil>real (length s0) * (12 / 10)\<rceil>"
  by (simp add: calc_max_length_def assms(1) str_accessor_Str [OF assms(2)]
      max_len_float_Str [OF assms(2,3)] ceil_buffer [OF assms(4)])

lemma get_col_text_column:
  "get_col (text_column c cells) c = Inr (Object, cells)"
  by (simp add: get_col_def dtypes_of_def text_column_def cell_of_def o_def)

text \<open>
  C5. For a text column with a string in it, the width estimator returns the ceiling
  of 1.2 times the greatest length \<open>L\<close> of the strings of the column, computed as the
  program does it in binary floating point, for every \<open>L\<close> below \<open>2 ^ 50\<close>.
\<close>

theorem width_is_ceil_of_max:
  assumes "get_col df col = Inr (Object, cells)"
    and "Str s0 \<in> set cells"
    and "\<forall>s. Str s \<in> set cells \<longrightarrow> length s \<le> length s0"
    and "length s0 < 2 ^ 50"
  shows "calc_max_length df col = Inr \<lceil>real (length s0) * (12 / 10)\<rceil>"
  using assms by (rule calc_max_length_text)

text \<open>The example of the specification: lengths 3, 10 and 7 give the width 12.\<close>

theorem width_is_ceil_of_max_witness:
  "get_col (text_column ''city'' [Str ''abc'', Str ''abcdefghij'', Str ''abcdefg'']) ''city'' =
     Inr (Object, [Str ''abc'', Str ''abcdefghij'', Str ''abcdefg'']) \<and>
   length ''abcdefghij'' = 10 \<and>
   calc_max_length (text_column ''city'' [Str ''abc'', Str ''abcdefghij'', Str ''abcdefg''])
     ''city'' = Inr 12"
proof -
  let ?cells = "[Str ''abc'', Str ''abcdefghij'', Str ''abcdefg'']"
  have 1: "Str ''abcdefghij'' \<in> set ?cells" by simp
  have 2: "\<forall>s. Str s \<in> set ?cells \<longrightarrow> length s \<le> length ''abcdefghij''" by auto
  have 3: "length ''abcdefghij'' < 2 ^ 50" by simp
  from width_is_ceil_of_max [OF get_col_text_column 1 2 3]
  show ?thesis by (simp add: get_col_text_column)
qed

section \<open>A text column with no string in it\<close>

lemma max_len_float_na:
  "list_all isna cells \<Longrightarrow> max_len_float (map str_len_cell cells) = NaN"
proof -
  assume a: "list_all isna cells"
  have "str_lens cells = []"
    using a by (induction cells) (auto simp: str_lens_def str_len_cell_def isna_def)
  then show ?thesis unfolding max_len_float_def str_lens_def [symmetric] by simp
qed

text \<open>
  C6. For a column with no rows, or with a missing value in every row, the width
  estimator raises: it returns no width. On an object column the exception is the
  \<^verbatim>\<open>ValueError\<close> of \<^verbatim>\<open>math.ceil\<close> on NaN.
\<close>

theorem width_of_empty_column_raises:
  assumes "list_all (\<lambda>r. isna (cell_of r col)) (rows df)"
  shows "(\<exists>e. calc_max_length df col = Inl e) \<and>
         (dtypes_of df col = [Object] \<longrightarrow> calc_max_length df col = Inl ValueError)"
proof -
  let ?cells = "map (\<lambda>r. cell_of r col) (rows df)"
  from assms have na: "list_all isna ?cells" by (simp add: list_all_iff)
  have v: "calc_max_length df col = Inl ValueError" if "get_col df col = Inr c"
    and "str_accessor c = Inr cells" for c cells
  proof -
    from get_col_Inr [OF that(1)] str_accessor_Inr [OF that(2)] have "cells = ?cells" by simp
    with na have "max_len_float (map str_len_cell cells) = NaN" by (simp only: max_len_float_na)
    then show ?thesis by (simp add: calc_max_length_def that)
  qed
  have 1: "\<exists>e. calc_max_length df col = Inl e"
  proof (cases "get_col df col")
    case (Inl e)
    then show ?thesis by (simp add: calc_max_length_def)
  next
    case (Inr c)
    show ?thesis
    proof (cases "str_accessor c")
      case (Inl e)
      with Inr show ?thesis by (simp add: calc_max_length_def)
    next
      case (Inr cells)
      from v [OF \<open>get_col df col = Inr c\<close> Inr] show ?thesis by blast
    qed
  qed
  have 2: "calc_max_length df col = Inl ValueError" if "dtypes_of df col = [Object]"
  proof -
    from that have g: "get_col df col = Inr (Object, ?cells)" by (simp add: get_col_def)
    from na have "filter (\<lambda>c. \<not> isna c) ?cells = []"
      by (simp add: filter_empty_conv list_all_iff)
    then have "str_accessor (Object, ?cells) = Inr ?cells"
      by (simp add: str_accessor_def Let_def del: map_eq_conv)
    from v [OF g this] show ?thesis .
  qed
  from 1 2 show ?thesis by blast
qed

text \<open>A column with no rows, and a column whose two values are missing.\<close>

theorem width_of_empty_column_raises_witness:
  "list_all (\<lambda>r. isna (cell_of r ''state'')) (rows (text_column ''state'' [])) \<and>
   calc_max_length (text_column ''state'' []) ''state'' = Inl ValueError \<and>
   list_all (\<lambda>r. isna (cell_of r ''state'')) (rows (text_column ''state'' [Flt NaN, Flt NaN])) \<and>
   calc_max_length (text_column ''state'' [Flt NaN, Flt NaN]) ''state'' = Inl ValueError"
proof -
  have a: "list_all (\<lambda>r. isna (cell_of r ''state'')) (rows (text_column ''state'' []))"
    and b: "list_all (\<lambda>r. isna (cell_of r ''state'')) (rows (text_column ''state'' [Flt NaN, Flt NaN]))"
    by (simp_all add: text_column_def cell_of_def isna_def)
  have c: "dtypes_of (text_column ''state'' []) ''state'' = [Object]"
    and d: "dtypes_of (text_column ''state'' [Flt NaN, Flt NaN]) ''state'' = [Object]"
    by (simp_all add: text_column_def dtypes_of_def)
  from width_of_empty_column_raises [OF a] width_of_empty_column_raises [OF b] a b c d
  show ?thesis by blast
qed

section \<open>Loading\<close>

lemma create_all_Some: "db n = Some t \<Longrightarrow> create_all n ws db = db"
  by (simp add: create_all_def)

lemma create_all_lookup:
  "create_all n ws db n =
     Some (case db n of None \<Rightarrow> \<lparr>widths = ws, stored = []\<rparr> | Some t \<Rightarrow> t)"
  by (simp add: create_all_def split: option.splits)

lemma create_all_other: "m \<noteq> n \<Longrightarrow> create_all n ws db m = db m"
  by (simp add: create_all_def split: option.splits)

lemma load_to_db_None:
  assumes "load_to_db accepts self df db = (db', None)"
  shows "\<exists>t. db' (table_name self) = Some t \<and>
           stored t = (case db (table_name self) of None \<Rightarrow> [] | Some t0 \<Rightarrow> stored t0) @ rows df"
    and "\<And>m. m \<noteq> table_name self \<Longrightarrow> db' m = db m"
proof -
  let ?n = "table_name self"
  from assms obtain ws where
    t: "to_sql accepts df ?n (create_all ?n ws db) = Inr db'"
    by (auto simp: load_to_db_def Let_def load_csv_def split: sum.splits)
  let ?t = "case db ?n of None \<Rightarrow> \<lparr>widths = ws, stored = []\<rparr> | Some t \<Rightarrow> t"
  from t have db': "db' = (create_all ?n ws db)(?n \<mapsto> ?t\<lparr>stored := stored ?t @ rows df\<rparr>)"
    by (auto simp: to_sql_def create_all_lookup split: if_splits)
  show "\<exists>t. db' ?n = Some t \<and>
           stored t = (case db ?n of None \<Rightarrow> [] | Some t0 \<Rightarrow> stored t0) @ rows df"
    by (simp add: db' split: option.splits)
  show "db' m = db m" if "m \<noteq> ?n" for m
    using that by (simp add: db' create_all_other)
qed

text \<open>
  C7. Creating the table is a step that changes nothing when the name is taken, so a
  second run does not fail there. After two loads of the same frame that both
  succeed, the table holds the rows it had before the first load (none, when the table
  was created by it), then the rows of the frame, then the rows of the frame again:
  \<open>2N\<close> rows more; no other table has changed.
\<close>

theorem load_twice_appends:
  assumes "load_to_db accepts self df db = (db1, None)"
    and "load_to_db accepts self df db1 = (db2, None)"
  shows "(\<exists>t. db2 (table_name self) = Some t \<and>
            stored t =
              (case db (table_name self) of None \<Rightarrow> [] | Some t0 \<Rightarrow> stored t0)
              @ rows df @ rows df \<and>
            length (stored t) =
              (case db (table_name self) of None \<Rightarrow> 0 | Some t0 \<Rightarrow> length (stored t0))
              + 2 * length (rows df)) \<and>
         (\<forall>m. m \<noteq> table_name self \<longrightarrow> db2 m = db m) \<and>
         create_all n ws (create_all n ws' db) = create_all n ws' db \<and>
         (db n \<noteq> None \<longrightarrow> create_all n ws db = db)"
proof -
  from load_to_db_None(1) [OF assms(1)] obtain t1 where
    t1: "db1 (table_name self) = Some t1"
    "stored t1 = (case db (table_name self) of None \<Rightarrow> [] | Some t0 \<Rightarrow> stored t0) @ rows df"
    by blast
  from load_to_db_None(1) [OF assms(2)] obtain t2 where
    t2: "db2 (table_name self) = Some t2"
    "stored t2 = (case db1 (table_name self) of None \<Rightarrow> [] | Some t0 \<Rightarrow> stored t0) @ rows df"
    by blast
  have s: "stored t2 =
      (case db (table_name self) of None \<Rightarrow> [] | Some t0 \<Rightarrow> stored t0) @ rows df @ rows df"
    by (simp add: t2(2) t1)
  then have l: "length (stored t2) =
      (case db (table_name self) of None \<Rightarrow> 0 | Some t0 \<Rightarrow> length (stored t0))
      + 2 * length (rows df)"
    by (simp split: option.splits)
  have o: "db2 m = db m" if "m \<noteq> table_name self" for m
    using that load_to_db_None(2) [OF assms(1)] load_to_db_None(2) [OF assms(2)] by simp
  have c1: "create_all n ws (create_all n ws' db) = create_all n ws' db"
    by (rule create_all_Some) (rule create_all_lookup)
  have c2: "create_all n ws db = db" if "db n \<noteq> None"
    using that by (auto intro: create_all_Some)
  from t2(1) s l o c1 c2 show ?thesis by blast
qed

lemma widths_load_example:
  "mapE (calc_max_length load_example)
     [''city'', ''state'', ''country'', ''shape'', ''duration (hours/min)'', ''comments''] =
   Inr [5, 3, 3, 5, 6, 8]"
  by (simp add: calc_max_length_def get_col_def dtypes_of_def load_example_def cell_of_def
      str_accessor_def isna_def is_str_def max_len_float_def str_len_cell_def buffer_eq
      to_double_def ilog2_def compute_floorlog round_half_even_def pow2_def)

text \<open>Two loads of a frame of one row into an empty database: two rows.\<close>

theorem load_twice_appends_witness:
  "load_to_db (\<lambda>t f. True) ufo load_example Map.empty =
     ([''ufo'' \<mapsto> \<lparr>widths = [5, 3, 3, 5, 6, 8], stored = rows load_example\<rparr>], None) \<and>
   load_to_db (\<lambda>t f. True) ufo load_example
       [''ufo'' \<mapsto> \<lparr>widths = [5, 3, 3, 5, 6, 8], stored = rows load_example\<rparr>] =
     ([''ufo'' \<mapsto> \<lparr>widths = [5, 3, 3, 5, 6, 8], stored = rows load_example @ rows load_example\<rparr>],
      None) \<and>
   (\<exists>t. [''ufo'' \<mapsto> \<lparr>widths = [5, 3, 3, 5, 6, 8],
             stored = rows load_example @ rows load_example\<rparr>] (table_name ufo) = Some t \<and>
        length (stored t) = 0 + 2 * length (rows load_example))"
proof -
  have 1: "load_to_db (\<lambda>t f. True) ufo load_example Map.empty =
     ([''ufo'' \<mapsto> \<lparr>widths = [5, 3, 3, 5, 6, 8], stored = rows load_example\<rparr>], None)"
    by (simp add: load_to_db_def widths_load_example create_all_def to_sql_def ufo_def
        del: mapE.simps)
  have 2: "load_to_db (\<lambda>t f. True) ufo load_example
       [''ufo'' \<mapsto> \<lparr>widths = [5, 3, 3, 5, 6, 8], stored = rows load_example\<rparr>] =
     ([''ufo'' \<mapsto> \<lparr>widths = [5, 3, 3, 5, 6, 8], stored = rows load_example @ rows load_example\<rparr>],
      None)"
    by (simp add: load_to_db_def widths_load_example create_all_def to_sql_def ufo_def
        del: mapE.simps)
  from load_twice_appends [OF 1 2]
  show ?thesis using 1 2 by (auto simp: ufo_def)
qed

end
